theory Spec2Isabelle
  imports Main "HOL-Library.Word" "HOL-Library.Monad_Syntax"
begin

section \<open>JavaScript values used by the SAB transport\<close>

text \<open>
  The control host (\<^verbatim>\<open>SharedArrayBufferMainThread\<close>) and the synthesis worker
  (\<^verbatim>\<open>sab.worker.js\<close>) talk through \<^verbatim>\<open>Int32Array\<close> views over shared buffers.
  An element is a 32-bit word; \<^verbatim>\<open>Atomics.load\<close> hands it out as a signed number and
  \<^verbatim>\<open>Atomics.store\<close>/\<^verbatim>\<open>add\<close>/\<^verbatim>\<open>sub\<close> convert their operand with ToInt32, so that
  arithmetic on an element wraps modulo \<open>2 ^ 32\<close>.  A thrown \<^verbatim>\<open>RangeError\<close> (index
  outside the view) is the value \<open>None\<close>.

  The numbers the code computes with are integers, except that \<^verbatim>\<open>%\<close> by zero gives
  \<^verbatim>\<open>NaN\<close>: a number is an \<open>int option\<close>, \<open>None\<close> standing for \<^verbatim>\<open>NaN\<close>.
\<close>

type_synonym i32 = "32 word"
type_synonym jsnum = "int option"
type_synonym addr = nat

datatype jsval = Undefined | Number int

text \<open>\<^verbatim>\<open>a % b\<close>: the remainder takes the sign of the dividend; \<^verbatim>\<open>NaN\<close> when \<open>b = 0\<close>.\<close>

definition js_rem :: "int \<Rightarrow> int \<Rightarrow> jsnum" where
  "js_rem a b = (if b = 0 then None else Some (sgn a * (\<bar>a\<bar> mod \<bar>b\<bar>)))"

definition js_rem_num :: "jsnum \<Rightarrow> int \<Rightarrow> jsnum" where
  "js_rem_num a b = (case a of None \<Rightarrow> None | Some x \<Rightarrow> js_rem x b)"

definition js_plus :: "jsnum \<Rightarrow> int \<Rightarrow> jsnum" where
  "js_plus a k = map_option (\<lambda>x. x + k) a"

text \<open>ToIndex: \<^verbatim>\<open>NaN\<close> and \<^verbatim>\<open>undefined\<close> become 0, a negative number throws.\<close>

definition ToIndex :: "jsnum \<Rightarrow> nat option" where
  "ToIndex v = (case v of None \<Rightarrow> Some 0 | Some i \<Rightarrow> if i < 0 then None else Some (nat i))"

definition ToInt32 :: "jsnum \<Rightarrow> i32" where
  "ToInt32 v = (case v of None \<Rightarrow> 0 | Some i \<Rightarrow> word_of_int i)"

section \<open>Shared memory\<close>

text \<open>
  Every \<^verbatim>\<open>new SharedArrayBuffer\<close> viewed as an \<^verbatim>\<open>Int32Array\<close> is a cell of the memory,
  named by its address.  Host and worker hold addresses, so that two views of one
  buffer alias and a freshly allocated buffer does not.
\<close>

record memory =
  cells :: "addr \<Rightarrow> i32 list"
  fresh :: addr

definition new_Int32Array :: "nat \<Rightarrow> memory \<Rightarrow> addr \<times> memory" where
  "new_Int32Array n m =
     (fresh m, m\<lparr>cells := (cells m)(fresh m := replicate n 0), fresh := Suc (fresh m)\<rparr>)"

definition Atomics_load :: "memory \<Rightarrow> addr \<Rightarrow> nat \<Rightarrow> int option" where
  "Atomics_load m a i =
     (if i < length (cells m a) then Some (sint (cells m a ! i)) else None)"

definition Atomics_store :: "memory \<Rightarrow> addr \<Rightarrow> nat \<Rightarrow> jsnum \<Rightarrow> memory option" where
  "Atomics_store m a i v =
     (if i < length (cells m a)
      then Some (m\<lparr>cells := (cells m)(a := (cells m a)[i := ToInt32 v])\<rparr>)
      else None)"

definition Atomics_add :: "memory \<Rightarrow> addr \<Rightarrow> nat \<Rightarrow> int \<Rightarrow> memory option" where
  "Atomics_add m a i v =
     (if i < length (cells m a)
      then Some (m\<lparr>cells := (cells m)(a := (cells m a)[i := cells m a ! i + word_of_int v])\<rparr>)
      else None)"

definition Atomics_sub :: "memory \<Rightarrow> addr \<Rightarrow> nat \<Rightarrow> int \<Rightarrow> memory option" where
  "Atomics_sub m a i v =
     (if i < length (cells m a)
      then Some (m\<lparr>cells := (cells m)(a := (cells m a)[i := cells m a ! i - word_of_int v])\<rparr>)
      else None)"

text \<open>
  \<^verbatim>\<open>Atomics.wait(view, index, value)\<close> compares the element with \<open>value\<close>: when they
  differ it returns \<^verbatim>\<open>"not-equal"\<close> at once, otherwise the thread sleeps until another
  agent notifies the index.
\<close>

datatype wait_result = not_equal | asleep

definition Atomics_wait :: "memory \<Rightarrow> addr \<Rightarrow> nat \<Rightarrow> int \<Rightarrow> wait_result option" where
  "Atomics_wait m a i v =
     (if i < length (cells m a)
      then Some (if cells m a ! i = word_of_int v then asleep else not_equal)
      else None)"

text \<open>Accesses through a computed index, as the MIDI ring's.\<close>

definition load_at :: "memory \<Rightarrow> addr \<Rightarrow> jsnum \<Rightarrow> int option" where
  "load_at m a ix = do { i \<leftarrow> ToIndex ix; Atomics_load m a i }"

definition store_at :: "memory \<Rightarrow> addr \<Rightarrow> jsnum \<Rightarrow> int \<Rightarrow> memory option" where
  "store_at m a ix v = do { i \<leftarrow> ToIndex ix; Atomics_store m a i (Some v) }"

section \<open>The constants table\<close>

text \<open>
  Modelled from the spec: the module \<^verbatim>\<open>@root/constants\<close> (the enumeration
  \<^verbatim>\<open>AUDIO_STATE\<close>, \<^verbatim>\<open>MIDI_BUFFER_SIZE\<close>, \<^verbatim>\<open>MIDI_BUFFER_PAYLOAD_SIZE\<close> and the template
  \<^verbatim>\<open>initialSharedState\<close>) is imported by both source files and is not part of them.
  Its entries are parameters: one index per field name the sources use (section 3.1 of
  the specification lists them), the two MIDI sizes and the template.  The sources spell
  the doorbell in two ways, \<^verbatim>\<open>ATOMIC_NOTIFY\<close> and \<^verbatim>\<open>ATOMIC_NOFITY\<close>; each spelling is an
  index of its own here (a name the table lacks reads as \<^verbatim>\<open>undefined\<close>, that is index 0).
\<close>

record constants =
  IS_PERFORMING :: nat
  IS_PAUSED :: nat
  STOP :: nat
  ATOMIC_NOTIFY :: nat
  ATOMIC_NOFITY :: nat
  NCHNLS :: nat
  NCHNLS_I :: nat
  SAMPLE_RATE :: nat
  HW_BUFFER_SIZE :: nat
  SW_BUFFER_SIZE :: nat
  AVAIL_IN_BUFS :: nat
  AVAIL_OUT_BUFS :: nat
  INPUT_READ_INDEX :: nat
  OUTPUT_WRITE_INDEX :: nat
  IS_REQUESTING_RTMIDI :: nat
  AVAIL_RTMIDI_EVENTS :: nat
  RTMIDI_INDEX :: nat
  MIDI_BUFFER_SIZE :: int
  MIDI_BUFFER_PAYLOAD_SIZE :: int
  initialSharedState :: "int list"

text \<open>The field indices named by the table, the misspelt doorbell apart.\<close>

definition field_indices :: "constants \<Rightarrow> nat list" where
  "field_indices C =
     [IS_PERFORMING C, IS_PAUSED C, STOP C, ATOMIC_NOTIFY C, NCHNLS C, NCHNLS_I C,
      SAMPLE_RATE C, HW_BUFFER_SIZE C, SW_BUFFER_SIZE C, AVAIL_IN_BUFS C, AVAIL_OUT_BUFS C,
      INPUT_READ_INDEX C, OUTPUT_WRITE_INDEX C, IS_REQUESTING_RTMIDI C,
      AVAIL_RTMIDI_EVENTS C, RTMIDI_INDEX C]"

text \<open>
  A table is well formed when the field names denote different words of the state
  vector, every one of them inside the template, and the misspelt doorbell is inside too.
\<close>

definition wf_constants :: "constants \<Rightarrow> bool" where
  "wf_constants C \<longleftrightarrow>
     distinct (field_indices C) \<and>
     list_all (\<lambda>i. i < length (initialSharedState C)) (field_indices C) \<and>
     ATOMIC_NOFITY C < length (initialSharedState C)"

section \<open>Play states\<close>

datatype play_state =
    realtimePerformanceStarted
  | realtimePerformancePaused
  | realtimePerformanceResumed
  | realtimePerformanceEnded
  | renderStarted
  | renderEnded

text \<open>
  Modelled from the spec: \<^verbatim>\<open>stopableStates\<close> is imported from \<^verbatim>\<open>@root/utils\<close>, which is
  not among the sources; section 3.5 of the specification gives its members.  The host's
  \<^verbatim>\<open>currentPlayState\<close> starts as \<^verbatim>\<open>undefined\<close> (\<open>None\<close>), which the set does not hold.
\<close>

definition stopableStates :: "play_state set" where
  "stopableStates =
     {realtimePerformanceStarted, renderStarted,
      realtimePerformancePaused, realtimePerformanceResumed}"

definition stopable :: "play_state option \<Rightarrow> bool" where
  "stopable s = (case s of None \<Rightarrow> False | Some p \<Rightarrow> p \<in> stopableStates)"

section \<open>The control host\<close>

text \<open>
  What leaves the shared memory is recorded in a trace, oldest event first: notifications,
  lifecycle triggers, promise resolutions, messages to and from the worker.
\<close>

datatype event =
    Notify addr nat
  | Trigger play_state
  | ForwardToAudioWorker play_state
  | PlayStateCallbacks play_state
  | ResolveStart
  | ResolveStop
  | PostStart addr addr
  | PostReset
  | Broadcast play_state

record audio_worker =
  isRequestingInput :: bool
  isRequestingMidi :: int
  sampleRate :: int
  inputCount :: int
  outputsCount :: int
  hardwareBufferSize :: int
  softwareBufferSize :: int

text \<open>
  The fields of \<^verbatim>\<open>SharedArrayBufferMainThread\<close> that the operations below read or
  write.  \<open>startPromiz\<close> and \<open>stopPromiz\<close> tell whether a resolver is installed.
  \<open>closure_audioStateBuffer\<close> is the local constant \<^verbatim>\<open>audioStateBuffer\<close> that
  \<^verbatim>\<open>initialize\<close> reads from \<^verbatim>\<open>this.audioStateBuffer\<close> once and that the \<^verbatim>\<open>csoundStart\<close>
  closure keeps.
\<close>

record main_thread =
  currentPlayState :: "play_state option"
  audioStatePointer :: addr
  midiBuffer :: addr
  closure_audioStateBuffer :: addr
  csoundInstance :: jsval
  startPromiz :: bool
  stopPromiz :: bool
  audioWorker :: "audio_worker option"

record world =
  mem :: memory
  main :: main_thread
  trace :: "event list"

definition emit :: "event \<Rightarrow> world \<Rightarrow> world" where
  "emit e w = w\<lparr>trace := trace w @ [e]\<rparr>"

definition Atomics_notify :: "world \<Rightarrow> addr \<Rightarrow> nat \<Rightarrow> world option" where
  "Atomics_notify w a i =
     (if i < length (cells (mem w) a) then Some (emit (Notify a i) w) else None)"

text \<open>
  The constructor allocates the state vector (as long as the template, all zero) and the
  MIDI ring; \<^verbatim>\<open>initialize\<close> then copies \<^verbatim>\<open>this.audioStateBuffer\<close> into the constant its
  closures keep and receives the engine instance from the worker.
\<close>

definition constructor :: "constants \<Rightarrow> world" where
  "constructor C =
     (let m0 = \<lparr>cells = (\<lambda>_. []), fresh = 0\<rparr>;
          (st, m1) = new_Int32Array (length (initialSharedState C)) m0;
          (mb, m2) = new_Int32Array (nat (MIDI_BUFFER_SIZE C * MIDI_BUFFER_PAYLOAD_SIZE C)) m1
      in \<lparr>mem = m2,
          main = \<lparr>currentPlayState = None, audioStatePointer = st, midiBuffer = mb,
                  closure_audioStateBuffer = st, csoundInstance = Undefined,
                  startPromiz = False, stopPromiz = False, audioWorker = None\<rparr>,
          trace = []\<rparr>)"

definition initialize :: "jsval \<Rightarrow> world \<Rightarrow> world" where
  "initialize inst w =
     w\<lparr>main := (main w)\<lparr>closure_audioStateBuffer := audioStatePointer (main w),
                         csoundInstance := inst\<rparr>\<rparr>"

subsection \<open>handleMidiInput\<close>

definition handleMidiInput :: "constants \<Rightarrow> int \<times> int \<times> int \<Rightarrow> world \<Rightarrow> world option" where
  "handleMidiInput C ev w =
     (case ev of (status, data1, data2) \<Rightarrow> do {
        currentQueueLength \<leftarrow>
          Atomics_load (mem w) (audioStatePointer (main w)) (AVAIL_RTMIDI_EVENTS C);
        rtmidiBufferIndex \<leftarrow>
          Atomics_load (mem w) (audioStatePointer (main w)) (RTMIDI_INDEX C);
        let nextIndex =
          js_rem (currentQueueLength * MIDI_BUFFER_PAYLOAD_SIZE C + rtmidiBufferIndex)
            (MIDI_BUFFER_SIZE C);
        m1 \<leftarrow> store_at (mem w) (midiBuffer (main w)) nextIndex status;
        m2 \<leftarrow> store_at m1 (midiBuffer (main w)) (js_plus nextIndex 1) data1;
        m3 \<leftarrow> store_at m2 (midiBuffer (main w)) (js_plus nextIndex 2) data2;
        m4 \<leftarrow> Atomics_add m3 (audioStatePointer (main w)) (AVAIL_RTMIDI_EVENTS C) 1;
        Some (w\<lparr>mem := m4\<rparr>)
      })"

subsection \<open>onPlayStateChange and prepareRealtimePerformance\<close>

definition prepareRealtimePerformance :: "constants \<Rightarrow> world \<Rightarrow> world option" where
  "prepareRealtimePerformance C w = do {
     outputsCount' \<leftarrow> Atomics_load (mem w) (audioStatePointer (main w)) (NCHNLS C);
     inputCount' \<leftarrow> Atomics_load (mem w) (audioStatePointer (main w)) (NCHNLS_I C);
     midi \<leftarrow> Atomics_load (mem w) (audioStatePointer (main w)) (IS_REQUESTING_RTMIDI C);
     sampleRate' \<leftarrow> Atomics_load (mem w) (audioStatePointer (main w)) (SAMPLE_RATE C);
     hardwareBufferSize' \<leftarrow>
       Atomics_load (mem w) (audioStatePointer (main w)) (HW_BUFFER_SIZE C);
     softwareBufferSize' \<leftarrow>
       Atomics_load (mem w) (audioStatePointer (main w)) (SW_BUFFER_SIZE C);
     Some (w\<lparr>main := (main w)\<lparr>audioWorker := Some
       \<lparr>isRequestingInput = (inputCount' > 0), isRequestingMidi = midi,
        sampleRate = sampleRate', inputCount = inputCount', outputsCount = outputsCount',
        hardwareBufferSize = hardwareBufferSize',
        softwareBufferSize = softwareBufferSize'\<rparr>\<rparr>\<rparr>)
   }"

text \<open>
  \<^verbatim>\<open>initialSharedState.forEach((value, index) => Atomics.store(view, index, value))\<close>,
  from index \<open>i\<close> on.
\<close>

fun store_each :: "memory \<Rightarrow> addr \<Rightarrow> nat \<Rightarrow> int list \<Rightarrow> memory option" where
  "store_each m a i [] = Some m"
| "store_each m a i (v # vs) = do {
     m' \<leftarrow> Atomics_store m a i (Some v);
     store_each m' a (Suc i) vs
   }"

definition resolve_stop :: "world \<Rightarrow> world" where
  "resolve_stop w =
     (if stopPromiz (main w)
      then emit ResolveStop (w\<lparr>main := (main w)\<lparr>stopPromiz := False\<rparr>\<rparr>)
      else w)"

definition on_case :: "constants \<Rightarrow> play_state \<Rightarrow> world \<Rightarrow> world option" where
  "on_case C newPlayState w =
     (case newPlayState of
        realtimePerformanceStarted \<Rightarrow> do {
          w1 \<leftarrow> prepareRealtimePerformance C w;
          Some (emit (Trigger realtimePerformanceStarted) w1)
        }
      | realtimePerformanceEnded \<Rightarrow> do {
          let w1 = emit (Trigger realtimePerformanceEnded) (resolve_stop w);
          m \<leftarrow> store_each (mem w1) (audioStatePointer (main w1)) 0 (initialSharedState C);
          Some (w1\<lparr>mem := m\<rparr>)
        }
      | realtimePerformancePaused \<Rightarrow> Some (emit (Trigger realtimePerformancePaused) w)
      | realtimePerformanceResumed \<Rightarrow> Some (emit (Trigger realtimePerformanceResumed) w)
      | renderStarted \<Rightarrow> Some (emit (Trigger renderStarted) w)
      | renderEnded \<Rightarrow> Some (emit (Trigger renderEnded) (resolve_stop w)))"

definition resolve_start :: "play_state \<Rightarrow> world \<Rightarrow> world" where
  "resolve_start newPlayState w =
     (if startPromiz (main w) \<and> newPlayState \<noteq> realtimePerformanceStarted
      then emit ResolveStart (w\<lparr>main := (main w)\<lparr>startPromiz := False\<rparr>\<rparr>)
      else w)"

definition onPlayStateChange :: "constants \<Rightarrow> play_state \<Rightarrow> world \<Rightarrow> world option" where
  "onPlayStateChange C newPlayState w = do {
     w1 \<leftarrow> on_case C newPlayState
             (w\<lparr>main := (main w)\<lparr>currentPlayState := Some newPlayState\<rparr>\<rparr>);
     let w2 = emit (ForwardToAudioWorker newPlayState) w1;
     let w3 = resolve_start newPlayState w2;
     Some (emit (PlayStateCallbacks newPlayState) w3)
   }"

subsection \<open>csoundPause and csoundResume\<close>

definition pause_guard :: "constants \<Rightarrow> world \<Rightarrow> bool option" where
  "pause_guard C w = do {
     p \<leftarrow> Atomics_load (mem w) (audioStatePointer (main w)) (IS_PAUSED C);
     if p = 1 then Some False else do {
       s \<leftarrow> Atomics_load (mem w) (audioStatePointer (main w)) (STOP C);
       if s = 1 then Some False else do {
         g \<leftarrow> Atomics_load (mem w) (audioStatePointer (main w)) (IS_PERFORMING C);
         Some (g = 1)
       }
     }
   }"

definition csoundPause :: "constants \<Rightarrow> world \<Rightarrow> (jsval \<times> world) option" where
  "csoundPause C w = do {
     ok \<leftarrow> pause_guard C w;
     if ok then do {
       m \<leftarrow> Atomics_store (mem w) (audioStatePointer (main w)) (IS_PAUSED C) (Some 1);
       w1 \<leftarrow> onPlayStateChange C realtimePerformancePaused (w\<lparr>mem := m\<rparr>);
       Some (Undefined, w1)
     } else Some (Undefined, w)
   }"

definition resume_guard :: "constants \<Rightarrow> world \<Rightarrow> bool option" where
  "resume_guard C w = do {
     p \<leftarrow> Atomics_load (mem w) (audioStatePointer (main w)) (IS_PAUSED C);
     if p \<noteq> 1 then Some False else do {
       s \<leftarrow> Atomics_load (mem w) (audioStatePointer (main w)) (STOP C);
       if s = 1 then Some False else do {
         g \<leftarrow> Atomics_load (mem w) (audioStatePointer (main w)) (IS_PERFORMING C);
         Some (g = 1)
       }
     }
   }"

definition csoundResume :: "constants \<Rightarrow> world \<Rightarrow> (jsval \<times> world) option" where
  "csoundResume C w = do {
     ok \<leftarrow> resume_guard C w;
     if ok then do {
       m \<leftarrow> Atomics_store (mem w) (audioStatePointer (main w)) (IS_PAUSED C) (Some 0);
       w1 \<leftarrow> Atomics_notify (w\<lparr>mem := m\<rparr>) (audioStatePointer (main w)) (IS_PAUSED C);
       w2 \<leftarrow> onPlayStateChange C realtimePerformanceResumed w1;
       Some (Undefined, w2)
     } else Some (Undefined, w)
   }"

subsection \<open>csoundStart, csoundStop and csoundReset\<close>

text \<open>
  An \<^verbatim>\<open>async\<close> operation either returns, or is suspended at an \<^verbatim>\<open>await\<close> of one of the
  host's promises and returns the given value once that promise is resolved.
\<close>

datatype outcome =
    Returned jsval
  | AwaitingStart
  | AwaitingStop jsval
  | AwaitingStopThenReset

text \<open>
  The value an outcome delivers, given the events that followed the call: a suspended
  \<^verbatim>\<open>stop()\<close> returns when \<^verbatim>\<open>stopPromiz\<close> has been called, and not before.
\<close>

fun delivered :: "outcome \<Rightarrow> event list \<Rightarrow> jsval option" where
  "delivered (Returned v) evs = Some v"
| "delivered AwaitingStart evs = None"
| "delivered (AwaitingStop v) evs = (if ResolveStop \<in> set evs then Some v else None)"
| "delivered AwaitingStopThenReset evs = None"

text \<open>
  \<^verbatim>\<open>csoundStart\<close> up to \<^verbatim>\<open>await startPromise\<close>: an instance that is \<^verbatim>\<open>undefined\<close> or 0
  is refused with \<open>-1\<close>; the buffers posted to the worker are the constants of the
  closure, not the fields of \<^verbatim>\<open>this\<close>.  The value it returns after the await is the
  worker's and is not modelled.
\<close>

definition csoundStart :: "world \<Rightarrow> outcome \<times> world" where
  "csoundStart w =
     (case csoundInstance (main w) of
        Undefined \<Rightarrow> (Returned (Number (- 1)), w)
      | Number inst \<Rightarrow>
          if inst = 0 then (Returned (Number (- 1)), w)
          else (AwaitingStart,
                emit (PostStart (closure_audioStateBuffer (main w)) (midiBuffer (main w)))
                  (w\<lparr>main := (main w)\<lparr>startPromiz := True\<rparr>\<rparr>)))"

definition csoundStop :: "constants \<Rightarrow> world \<Rightarrow> (outcome \<times> world) option" where
  "csoundStop C w =
     (if stopable (currentPlayState (main w)) then do {
        let w0 = w\<lparr>main := (main w)\<lparr>stopPromiz := True\<rparr>\<rparr>;
        m1 \<leftarrow> Atomics_store (mem w0) (audioStatePointer (main w0)) (STOP C) (Some 1);
        m2 \<leftarrow> Atomics_store m1 (audioStatePointer (main w0)) (IS_PERFORMING C) (Some 0);
        w1 \<leftarrow>
          (if currentPlayState (main w0) = Some realtimePerformancePaused then do {
             m3 \<leftarrow> Atomics_store m2 (audioStatePointer (main w0)) (IS_PAUSED C) (Some 0);
             Atomics_notify (w0\<lparr>mem := m3\<rparr>) (audioStatePointer (main w0)) (IS_PAUSED C)
           } else Some (w0\<lparr>mem := m2\<rparr>));
        w2 \<leftarrow>
          (if currentPlayState (main w0) \<noteq> Some renderStarted then do {
             m4 \<leftarrow> Atomics_store (mem w1) (audioStatePointer (main w0)) (ATOMIC_NOFITY C)
                     (Some 1);
             Atomics_notify (w1\<lparr>mem := m4\<rparr>) (audioStatePointer (main w0)) (ATOMIC_NOTIFY C)
           } else Some w1);
        Some (AwaitingStop (Number 0), w2)
      } else Some (Returned (Number (- 1)), w))"

text \<open>
  \<^verbatim>\<open>csoundReset\<close> after its optional \<^verbatim>\<open>await this.exportApi.stop()\<close>: the reset is posted
  to the worker, whose result \<open>resetResult\<close> is returned, and \<^verbatim>\<open>this.audioStateBuffer\<close>
  and \<^verbatim>\<open>this.audioStatePointer\<close> are replaced by a fresh buffer.  In a stopable state
  \<^verbatim>\<open>csoundReset\<close> first runs \<^verbatim>\<open>stop()\<close> and is suspended with it; \<open>csoundReset_tail\<close> is
  what it does once the stop has returned.
\<close>

definition csoundReset_tail :: "constants \<Rightarrow> int \<Rightarrow> world \<Rightarrow> outcome \<times> world" where
  "csoundReset_tail C resetResult w =
     (let w1 = emit PostReset w;
          (st, m) = new_Int32Array (length (initialSharedState C)) (mem w1)
      in (Returned (Number resetResult),
          w1\<lparr>mem := m, main := (main w1)\<lparr>audioStatePointer := st\<rparr>\<rparr>))"

definition csoundReset :: "constants \<Rightarrow> int \<Rightarrow> world \<Rightarrow> (outcome \<times> world) option" where
  "csoundReset C resetResult w =
     (if stopable (currentPlayState (main w)) then do {
        (r, w1) \<leftarrow> csoundStop C w;
        Some (AwaitingStopThenReset, w1)
      } else Some (csoundReset_tail C resetResult w))"

section \<open>The synthesis worker\<close>

text \<open>
  The engine is opaque.  What the worker asks of it is fixed per instance (the audio
  parameters, and the return code of each successive \<^verbatim>\<open>csoundPerformKsmps\<close>); what the
  worker does to it is recorded (calls of perform and stop, MIDI messages pushed, in
  order).  The parameters are JavaScript numbers and are taken to be integral.  The
  transfer of samples between the Float64 rings and the engine's \<^verbatim>\<open>spin\<close>/\<^verbatim>\<open>spout\<close>
  touches neither the state vector nor the MIDI ring and is left out.
\<close>

record engine =
  get_nchnls :: int
  get_nchnls_i :: int
  get_sr :: int
  get_ksmps :: int
  is_requesting_rtmidi :: int
  input_name_has_adc :: bool
  perform_result :: "nat \<Rightarrow> int"
  performed :: nat
  stop_called :: bool
  pushed_midi :: "(int \<times> int \<times> int) list"

definition lib_csoundPerformKsmps :: "engine \<Rightarrow> int \<times> engine" where
  "lib_csoundPerformKsmps e = (perform_result e (performed e), e\<lparr>performed := Suc (performed e)\<rparr>)"

definition lib_csoundStop :: "engine \<Rightarrow> engine" where
  "lib_csoundStop e = e\<lparr>stop_called := True\<rparr>"

definition lib_csoundPushMidiMessage :: "int \<times> int \<times> int \<Rightarrow> engine \<Rightarrow> engine" where
  "lib_csoundPushMidiMessage ev e = e\<lparr>pushed_midi := pushed_midi e @ [ev]\<rparr>"

text \<open>The variables of one call of \<^verbatim>\<open>sabCreateRealtimeAudioThread\<close>.\<close>

record worker =
  statePointer :: addr
  midiView :: addr
  isRequestingRtMidiInput :: int
  nchnls :: int
  nchnlsInput :: int
  ksmps :: int
  hw_B :: int
  sw_b :: int
  lastReturn :: int
  performanceEnded :: bool
  firstRound :: bool
  csound :: engine

subsection \<open>Setup, up to the broadcast of realtimePerformanceStarted\<close>

definition sab_setup ::
  "constants \<Rightarrow> addr \<Rightarrow> addr \<Rightarrow> engine \<Rightarrow> world \<Rightarrow> (worker \<times> world) option" where
  "sab_setup C audioStateBuffer midiBuf e w = do {
     m0 \<leftarrow> store_each (mem w) audioStateBuffer 0 (initialSharedState C);
     let isRequestingRtMidiInput' = is_requesting_rtmidi e;
     let isExpectingInput = input_name_has_adc e;
     let nchnls' = get_nchnls e;
     let nchnlsInput' = (if isExpectingInput then get_nchnls_i e else 0);
     let sampleRate' = get_sr e;
     m1 \<leftarrow> Atomics_store m0 audioStateBuffer (NCHNLS C) (Some nchnls');
     m2 \<leftarrow> Atomics_store m1 audioStateBuffer (NCHNLS_I C) (Some nchnlsInput');
     m3 \<leftarrow> Atomics_store m2 audioStateBuffer (SAMPLE_RATE C) (Some sampleRate');
     m4 \<leftarrow> Atomics_store m3 audioStateBuffer (IS_REQUESTING_RTMIDI C)
             (Some isRequestingRtMidiInput');
     let ksmps' = get_ksmps e;
     B \<leftarrow> Atomics_load m4 audioStateBuffer (HW_BUFFER_SIZE C);
     b \<leftarrow> Atomics_load m4 audioStateBuffer (SW_BUFFER_SIZE C);
     m5 \<leftarrow> Atomics_store m4 audioStateBuffer (IS_PERFORMING C) (Some 1);
     Some (\<lparr>statePointer = audioStateBuffer, midiView = midiBuf,
            isRequestingRtMidiInput = isRequestingRtMidiInput',
            nchnls = nchnls', nchnlsInput = nchnlsInput', ksmps = ksmps',
            hw_B = B, sw_b = b, lastReturn = 0, performanceEnded = False,
            firstRound = True, csound = e\<rparr>,
           emit (Broadcast realtimePerformanceStarted) (w\<lparr>mem := m5\<rparr>))
   }"

subsection \<open>One wake of the render loop\<close>

text \<open>
  The loop \<^verbatim>\<open>while (Atomics.wait(view, ATOMIC_NOTIFY, 0) === "ok" || true)\<close> never ends by
  its condition; a wake is one run of its body, which either leaves the loop, sleeps in
  the wait on \<^verbatim>\<open>IS_PAUSED\<close>, or reaches the end of the body.  The host and the audio
  backend do not run during a wake.
\<close>

datatype wake_result = loop_exit | asleep_on_pause | loop_again

definition stop_requested :: "constants \<Rightarrow> worker \<Rightarrow> memory \<Rightarrow> bool option" where
  "stop_requested C wk m = do {
     s \<leftarrow> Atomics_load m (statePointer wk) (STOP C);
     if s = 1 then Some True else do {
       p \<leftarrow> Atomics_load m (statePointer wk) (IS_PERFORMING C);
       Some (p \<noteq> 1 \<or> performanceEnded wk)
     }
   }"

definition end_performance :: "worker \<Rightarrow> world \<Rightarrow> worker \<times> world" where
  "end_performance wk w =
     ((if lastReturn wk = 0 \<and> \<not> performanceEnded wk
       then wk\<lparr>csound := snd (lib_csoundPerformKsmps (lib_csoundStop (csound wk)))\<rparr>
       else wk),
      emit (Broadcast realtimePerformanceEnded) w)"

text \<open>
  The MIDI loop \<^verbatim>\<open>for (idx = 0; idx < availableMidiEvents; idx++)\<close>: \<open>k\<close> iterations are
  left, \<open>absIdx\<close> is the variable of that name.
\<close>

fun midi_loop ::
  "constants \<Rightarrow> memory \<Rightarrow> addr \<Rightarrow> int \<Rightarrow> nat \<Rightarrow> nat \<Rightarrow> jsnum \<Rightarrow> engine \<Rightarrow> (jsnum \<times> engine) option"
where
  "midi_loop C m mb rtmidiBufferIndex idx 0 absIdx e = Some (absIdx, e)"
| "midi_loop C m mb rtmidiBufferIndex idx (Suc k) absIdx e = do {
     let absIdx' =
       js_rem (rtmidiBufferIndex + MIDI_BUFFER_PAYLOAD_SIZE C * int idx) (MIDI_BUFFER_SIZE C);
     status \<leftarrow> load_at m mb absIdx';
     data1 \<leftarrow> load_at m mb (js_plus absIdx' 1);
     data2 \<leftarrow> load_at m mb (js_plus absIdx' 2);
     midi_loop C m mb rtmidiBufferIndex (Suc idx) k absIdx'
       (lib_csoundPushMidiMessage (status, data1, data2) e)
   }"

definition drain_midi :: "constants \<Rightarrow> worker \<Rightarrow> memory \<Rightarrow> (worker \<times> memory) option" where
  "drain_midi C wk m =
     (if isRequestingRtMidiInput wk \<noteq> 0 then do {
        availableMidiEvents \<leftarrow> Atomics_load m (statePointer wk) (AVAIL_RTMIDI_EVENTS C);
        if availableMidiEvents > 0 then do {
          rtmidiBufferIndex \<leftarrow> Atomics_load m (statePointer wk) (RTMIDI_INDEX C);
          (absIdx, e) \<leftarrow>
            midi_loop C m (midiView wk) rtmidiBufferIndex 0 (nat availableMidiEvents)
              (Some rtmidiBufferIndex) (csound wk);
          m1 \<leftarrow> Atomics_store m (statePointer wk) (RTMIDI_INDEX C)
                  (js_rem_num (js_plus absIdx 1) (MIDI_BUFFER_SIZE C));
          m2 \<leftarrow> Atomics_sub m1 (statePointer wk) (AVAIL_RTMIDI_EVENTS C) availableMidiEvents;
          Some (wk\<lparr>csound := e\<rparr>, m2)
        } else Some (wk, m)
      } else Some (wk, m))"

text \<open>
  Modelled from the spec: \<^verbatim>\<open>handleSABCallbacks\<close> comes from \<^verbatim>\<open>@root/sab.worker.utils\<close>,
  which is not among the sources.  By section 4.4 of the specification the drain of the
  callback ring calls engine entry points and posts replies, and does not change the
  state vector; it changes neither that nor the MIDI ring here.
\<close>

definition handleSABCallbacks :: "memory \<Rightarrow> memory" where
  "handleSABCallbacks m = m"

text \<open>The frame loop \<^verbatim>\<open>for (i = 0; i < framesRequested; i++)\<close>.\<close>

definition perform_if_due :: "jsnum \<Rightarrow> worker \<Rightarrow> worker" where
  "perform_if_due currentCsoundOutputBufferPos wk =
     (if currentCsoundOutputBufferPos = Some 0 \<and> \<not> performanceEnded wk
      then (if lastReturn wk = 0
            then (case lib_csoundPerformKsmps (csound wk) of
                    (r, e) \<Rightarrow> wk\<lparr>lastReturn := r, csound := e\<rparr>)
            else wk\<lparr>performanceEnded := True\<rparr>)
      else wk)"

definition advance_index :: "memory \<Rightarrow> addr \<Rightarrow> nat \<Rightarrow> int \<Rightarrow> memory option" where
  "advance_index m a f B = do {
     m1 \<leftarrow> Atomics_add m a f 1;
     v \<leftarrow> Atomics_load m1 a f;
     if v \<ge> B then Atomics_store m1 a f (Some 0) else Some m1
   }"

definition frame_step ::
  "constants \<Rightarrow> bool \<Rightarrow> int \<Rightarrow> int \<Rightarrow> worker \<times> memory \<Rightarrow> (worker \<times> memory) option" where
  "frame_step C hasInput outputWriteIndex i s =
     (case s of (wk, m) \<Rightarrow> do {
        let currentOutputWriteIndex = js_rem (outputWriteIndex + i) (hw_B wk);
        let currentCsoundOutputBufferPos = js_rem_num currentOutputWriteIndex (ksmps wk);
        let wk1 = perform_if_due currentCsoundOutputBufferPos wk;
        m1 \<leftarrow> (if hasInput
                then advance_index m (statePointer wk) (INPUT_READ_INDEX C) (hw_B wk)
                else Some m);
        m2 \<leftarrow> advance_index m1 (statePointer wk) (OUTPUT_WRITE_INDEX C) (hw_B wk);
        Some (wk1, m2)
      })"

fun frames_loop ::
  "constants \<Rightarrow> bool \<Rightarrow> int \<Rightarrow> int \<Rightarrow> nat \<Rightarrow> worker \<times> memory \<Rightarrow> (worker \<times> memory) option"
where
  "frames_loop C hasInput outputWriteIndex i 0 s = Some s"
| "frames_loop C hasInput outputWriteIndex i (Suc n) s = do {
     s' \<leftarrow> frame_step C hasInput outputWriteIndex i s;
     frames_loop C hasInput outputWriteIndex (i + 1) n s'
   }"

text \<open>
  The rest of the body after the exit test and the pause test: MIDI, callbacks, frames,
  then the counters (step 6 of the specification) and the doorbell.
\<close>

definition render :: "constants \<Rightarrow> worker \<Rightarrow> memory \<Rightarrow> (worker \<times> memory) option" where
  "render C wk m = do {
     (wk1, m1) \<leftarrow> drain_midi C wk m;
     let m1' = handleSABCallbacks m1;
     let framesRequested = sw_b wk1;
     availableInputFrames \<leftarrow> Atomics_load m1' (statePointer wk1) (AVAIL_IN_BUFS C);
     let hasInput = (availableInputFrames \<ge> framesRequested);
     inputReadIndex \<leftarrow>
       (if hasInput
        then map_option Some (Atomics_load m1' (statePointer wk1) (INPUT_READ_INDEX C))
        else Some None);
     outputWriteIndex \<leftarrow> Atomics_load m1' (statePointer wk1) (OUTPUT_WRITE_INDEX C);
     (wk2, m2) \<leftarrow> frames_loop C hasInput outputWriteIndex 0 (nat framesRequested) (wk1, m1');
     m3 \<leftarrow> (if hasInput
             then Atomics_sub m2 (statePointer wk2) (AVAIL_IN_BUFS C) framesRequested
             else Some m2);
     m4 \<leftarrow> Atomics_add m3 (statePointer wk2) (AVAIL_OUT_BUFS C) framesRequested;
     m5 \<leftarrow> Atomics_store m4 (statePointer wk2) (ATOMIC_NOTIFY C) (Some 0);
     Some (wk2, m5)
   }"

definition wake :: "constants \<Rightarrow> worker \<Rightarrow> world \<Rightarrow> (wake_result \<times> worker \<times> world) option" where
  "wake C wk0 w = do {
     let wk = wk0\<lparr>firstRound := False\<rparr>;
     quit \<leftarrow> stop_requested C wk (mem w);
     if quit
     then (case end_performance wk w of (wk', w') \<Rightarrow> Some (loop_exit, wk', w'))
     else do {
       paused \<leftarrow> Atomics_load (mem w) (statePointer wk) (IS_PAUSED C);
       sleeps \<leftarrow>
         (if paused = 1
          then map_option (\<lambda>r. r = asleep) (Atomics_wait (mem w) (statePointer wk) (IS_PAUSED C) 0)
          else Some False);
       if sleeps then Some (asleep_on_pause, wk, w)
       else do {
         (wk', m') \<leftarrow> render C wk (mem w);
         Some (loop_again, wk', w\<lparr>mem := m'\<rparr>)
       }
     }
   }"

section \<open>Views and sample data\<close>

text \<open>The state vector as the host sees it, and one of its fields read as a number.\<close>

definition host_state :: "world \<Rightarrow> i32 list" where
  "host_state w = cells (mem w) (audioStatePointer (main w))"

definition peek :: "world \<Rightarrow> nat \<Rightarrow> int" where
  "peek w i = sint (host_state w ! i)"

text \<open>The same for the worker's view.\<close>

definition worker_state :: "worker \<Rightarrow> memory \<Rightarrow> i32 list" where
  "worker_state wk m = cells m (statePointer wk)"

definition field :: "worker \<Rightarrow> memory \<Rightarrow> nat \<Rightarrow> int" where
  "field wk m i = sint (worker_state wk m ! i)"

text \<open>
  A constants table on which the general theorems are instantiated: sixteen fields in
  the order of section 3.1 of the specification, both spellings of the doorbell at one
  index, a ring of 1024 words with three-word events, a hardware buffer of 4096 frames
  and a software buffer of 8.
\<close>

definition sample_constants :: constants where
  "sample_constants =
     \<lparr>IS_PERFORMING = 0, IS_PAUSED = 1, STOP = 2, ATOMIC_NOTIFY = 3, ATOMIC_NOFITY = 3,
      NCHNLS = 4, NCHNLS_I = 5, SAMPLE_RATE = 6, HW_BUFFER_SIZE = 7, SW_BUFFER_SIZE = 8,
      AVAIL_IN_BUFS = 9, AVAIL_OUT_BUFS = 10, INPUT_READ_INDEX = 11,
      OUTPUT_WRITE_INDEX = 12, IS_REQUESTING_RTMIDI = 13, AVAIL_RTMIDI_EVENTS = 14,
      RTMIDI_INDEX = 15, MIDI_BUFFER_SIZE = 1024, MIDI_BUFFER_PAYLOAD_SIZE = 3,
      initialSharedState = [0, 0, 0, 0, 0, 0, 0, 4096, 8, 0, 0, 0, 0, 0, 0, 0]\<rparr>"

text \<open>An engine with two output channels, no input, 44100 Hz, blocks of 4 frames, that
  asks for MIDI and whose every block succeeds.\<close>

definition sample_engine :: engine where
  "sample_engine =
     \<lparr>get_nchnls = 2, get_nchnls_i = 0, get_sr = 44100, get_ksmps = 4,
      is_requesting_rtmidi = 1, input_name_has_adc = False,
      perform_result = (\<lambda>_. 0), performed = 0, stop_called = False, pushed_midi = []\<rparr>"

text \<open>The host after its constructor and \<^verbatim>\<open>initialize\<close>, engine instance 1.\<close>

definition fresh_host :: world where
  "fresh_host = initialize (Number 1) (constructor sample_constants)"

text \<open>
  The race that leaves \<^verbatim>\<open>IS_PAUSED = 1\<close> under the play state
  \<^verbatim>\<open>realtimePerformanceStarted\<close>: \<^verbatim>\<open>start()\<close> posts the buffers, the worker sets up and
  posts its broadcast; the host runs \<^verbatim>\<open>pause()\<close> (the worker has already stored
  \<^verbatim>\<open>IS_PERFORMING = 1\<close>) before it handles that broadcast.
\<close>

definition engine_started :: "(worker \<times> world) option" where
  "engine_started =
     (case csoundStart fresh_host of (r, w1) \<Rightarrow>
        sab_setup sample_constants (closure_audioStateBuffer (main w1)) (midiBuffer (main w1))
          sample_engine w1)"

definition paused_before_started :: "world option" where
  "paused_before_started = do {
     (wk, w2) \<leftarrow> engine_started;
     (r, w3) \<leftarrow> csoundPause sample_constants w2;
     onPlayStateChange sample_constants realtimePerformanceStarted w3
   }"

text \<open>The host in a paused realtime performance of the sample engine.\<close>

definition paused_host :: world where
  "paused_host =
     \<lparr>mem = \<lparr>cells = ((\<lambda>_. [])(0 := [1, 1, 0, 0, 2, 0, 44100, 4096, 8, 0, 0, 0, 0, 1, 0, 0]))
                        (Suc 0 := replicate 3072 0),
             fresh = 2\<rparr>,
      main = \<lparr>currentPlayState = Some realtimePerformancePaused, audioStatePointer = 0,
              midiBuffer = 1, closure_audioStateBuffer = 0, csoundInstance = Number 1,
              startPromiz = False, stopPromiz = False, audioWorker = None\<rparr>,
      trace = []\<rparr>"

text \<open>The numbers an \<^verbatim>\<open>Int32Array\<close> element holds without wrapping.\<close>

definition int32 :: "int \<Rightarrow> bool" where
  "int32 v \<longleftrightarrow> - (2 ^ 31) \<le> v \<and> v < 2 ^ 31"

text \<open>
  A frame condition on a state vector: the second list has the length of the first and
  agrees with it at every index outside the set.
\<close>

definition unchanged_but :: "nat set \<Rightarrow> i32 list \<Rightarrow> i32 list \<Rightarrow> bool" where
  "unchanged_but S xs ys \<longleftrightarrow> length ys = length xs \<and> (\<forall>j. j \<notin> S \<longrightarrow> ys ! j = xs ! j)"

text \<open>
  Modelled from the spec: the audio backend is not among the sources.  By section 2 of
  the specification it writes \<^verbatim>\<open>AVAIL_IN_BUFS\<close> and rings the doorbell: it stores 1 into
  \<^verbatim>\<open>ATOMIC_NOTIFY\<close> and notifies it.  It is used to set up sample runs only.
\<close>

definition backend_input :: "constants \<Rightarrow> int \<Rightarrow> world \<Rightarrow> world option" where
  "backend_input C n w = do {
     m1 \<leftarrow> Atomics_add (mem w) (audioStatePointer (main w)) (AVAIL_IN_BUFS C) n;
     m2 \<leftarrow> Atomics_store m1 (audioStatePointer (main w)) (ATOMIC_NOTIFY C) (Some 1);
     Atomics_notify (w\<lparr>mem := m2\<rparr>) (audioStatePointer (main w)) (ATOMIC_NOTIFY C)
   }"

text \<open>
  \<^verbatim>\<open>start()\<close> from a host world, with the sample constants and the sample engine: the host
  posts the buffers of its closure, the worker sets up on them, and the host handles the
  broadcast of \<^verbatim>\<open>realtimePerformanceStarted\<close>.
\<close>

definition performance_started :: "world \<Rightarrow> (worker \<times> world) option" where
  "performance_started w0 =
     (case csoundStart w0 of (r, w1) \<Rightarrow> do {
        (wk, w2) \<leftarrow>
          sab_setup sample_constants (closure_audioStateBuffer (main w1)) (midiBuffer (main w1))
            sample_engine w1;
        w3 \<leftarrow> onPlayStateChange sample_constants realtimePerformanceStarted w2;
        Some (wk, w3)
      })"

text \<open>Scenario 1 of the specification, with a software buffer of 8 frames: as many input
  frames are ready before the first wake.\<close>

definition happy_path :: "(worker \<times> world) option" where
  "happy_path = do {
     (wk, w) \<leftarrow> performance_started fresh_host;
     w' \<leftarrow> backend_input sample_constants 8 w;
     Some (wk, w')
   }"

text \<open>Scenario 2: the host pauses, then 8 input frames arrive.\<close>

definition paused_with_input :: "(worker \<times> world) option" where
  "paused_with_input = do {
     (wk, w) \<leftarrow> performance_started fresh_host;
     (u, w1) \<leftarrow> csoundPause sample_constants w;
     w2 \<leftarrow> backend_input sample_constants 8 w1;
     Some (wk, w2)
   }"

text \<open>Scenario 4: three MIDI messages before any wake.\<close>

definition three_midi_events :: "(worker \<times> world) option" where
  "three_midi_events = do {
     (wk, w) \<leftarrow> performance_started fresh_host;
     w1 \<leftarrow> handleMidiInput sample_constants (0x90, 60, 100) w;
     w2 \<leftarrow> handleMidiInput sample_constants (0x80, 60, 0) w1;
     w3 \<leftarrow> handleMidiInput sample_constants (0xB0, 7, 64) w2;
     Some (wk, w3)
   }"

text \<open>
  A performance started from a host world, in which one note-on arrives before the first
  wake: what the engine has received after that wake, and the configuration stamped on
  the audio backend.
\<close>

definition midi_performance ::
  "world \<Rightarrow> ((int \<times> int \<times> int) list \<times> audio_worker option) option" where
  "midi_performance w0 = do {
     (wk, w) \<leftarrow> performance_started w0;
     w1 \<leftarrow> handleMidiInput sample_constants (0x90, 60, 100) w;
     (r, wk', w2) \<leftarrow> wake sample_constants wk w1;
     Some (pushed_midi (csound wk'), audioWorker (main w2))
   }"

text \<open>
  A host whose ring of 1024 words holds 341 unconsumed events from index 0 on, the oldest
  a note-on; the other events are zero.
\<close>

definition full_ring_host :: world where
  "full_ring_host =
     \<lparr>mem = \<lparr>cells = ((\<lambda>_. [])(0 := [1, 0, 0, 0, 2, 0, 44100, 4096, 8, 0, 0, 0, 0, 1, 341, 0]))
                        (Suc 0 := [0x90, 60, 100] @ replicate 3069 0),
             fresh = 2\<rparr>,
      main = \<lparr>currentPlayState = Some realtimePerformanceStarted, audioStatePointer = 0,
              midiBuffer = 1, closure_audioStateBuffer = 0, csoundInstance = Number 1,
              startPromiz = False, stopPromiz = False, audioWorker = None\<rparr>,
      trace = []\<rparr>"

text \<open>
  The sample table with a ring of 12 words, which the payload size divides, and a host
  whose ring holds the four events that fill it.
\<close>

definition small_ring_constants :: constants where
  "small_ring_constants = sample_constants\<lparr>MIDI_BUFFER_SIZE := 12\<rparr>"

definition full_small_ring_host :: world where
  "full_small_ring_host =
     \<lparr>mem = \<lparr>cells = ((\<lambda>_. [])(0 := [1, 0, 0, 0, 2, 0, 44100, 4096, 8, 0, 0, 0, 0, 1, 4, 0]))
                        (Suc 0 := [0x90, 60, 100, 0x80, 60, 0, 0x90, 62, 100, 0x80, 62, 0]
                                    @ replicate 24 0),
             fresh = 2\<rparr>,
      main = \<lparr>currentPlayState = Some realtimePerformanceStarted, audioStatePointer = 0,
              midiBuffer = 1, closure_audioStateBuffer = 0, csoundInstance = Number 1,
              startPromiz = False, stopPromiz = False, audioWorker = None\<rparr>,
      trace = []\<rparr>"

section \<open>Basic facts\<close>

lemma wf_sample: "wf_constants sample_constants"
  by (simp add: wf_constants_def field_indices_def sample_constants_def)

lemma fresh_host_eq:
  "fresh_host =
     \<lparr>mem = \<lparr>cells = ((\<lambda>_. [])(0 := replicate 16 0))(Suc 0 := replicate 3072 0), fresh = 2\<rparr>,
      main = \<lparr>currentPlayState = None, audioStatePointer = 0, midiBuffer = 1,
              closure_audioStateBuffer = 0, csoundInstance = Number 1,
              startPromiz = False, stopPromiz = False, audioWorker = None\<rparr>,
      trace = []\<rparr>"
  by (simp add: fresh_host_def initialize_def constructor_def sample_constants_def
      new_Int32Array_def Let_def numeral_eq_Suc)

lemma load_in_range:
  "i < length (cells m a) \<Longrightarrow> Atomics_load m a i = Some (sint (cells m a ! i))"
  by (simp add: Atomics_load_def)

lemma in_bounds:
  assumes "wf_constants C"
  shows "IS_PERFORMING C < length (initialSharedState C)"
    and "IS_PAUSED C < length (initialSharedState C)"
    and "STOP C < length (initialSharedState C)"
    and "ATOMIC_NOTIFY C < length (initialSharedState C)"
    and "ATOMIC_NOFITY C < length (initialSharedState C)"
    and "NCHNLS C < length (initialSharedState C)"
    and "NCHNLS_I C < length (initialSharedState C)"
    and "SAMPLE_RATE C < length (initialSharedState C)"
    and "HW_BUFFER_SIZE C < length (initialSharedState C)"
    and "SW_BUFFER_SIZE C < length (initialSharedState C)"
    and "AVAIL_IN_BUFS C < length (initialSharedState C)"
    and "AVAIL_OUT_BUFS C < length (initialSharedState C)"
    and "INPUT_READ_INDEX C < length (initialSharedState C)"
    and "OUTPUT_WRITE_INDEX C < length (initialSharedState C)"
    and "IS_REQUESTING_RTMIDI C < length (initialSharedState C)"
    and "AVAIL_RTMIDI_EVENTS C < length (initialSharedState C)"
    and "RTMIDI_INDEX C < length (initialSharedState C)"
  using assms by (simp_all add: wf_constants_def field_indices_def)

lemma store_each_cells:
  "i + length vs = length (cells m a) \<Longrightarrow>
   store_each m a i vs =
     Some (m\<lparr>cells := (cells m)(a := take i (cells m a) @ map word_of_int vs)\<rparr>)"
proof (induction vs arbitrary: m i)
  case Nil
  then show ?case by simp
next
  case (Cons v vs)
  let ?m' = "m\<lparr>cells := (cells m)(a := (cells m a)[i := word_of_int v])\<rparr>"
  from Cons.prems have i: "i < length (cells m a)" by simp
  then have st: "Atomics_store m a i (Some v) = Some ?m'"
    by (simp add: Atomics_store_def ToInt32_def)
  have len: "Suc i + length vs = length (cells ?m' a)" using Cons.prems by simp
  have tk: "take (Suc i) ((cells m a)[i := word_of_int v]) = take i (cells m a) @ [word_of_int v]"
    using i by (simp add: take_Suc_conv_app_nth)
  have "store_each m a i (v # vs) = store_each ?m' a (Suc i) vs"
    using st by simp
  also have "\<dots> =
      Some (?m'\<lparr>cells := (cells ?m')(a := take (Suc i) (cells ?m' a) @ map word_of_int vs)\<rparr>)"
    by (rule Cons.IH [OF len])
  also have "\<dots> =
      Some (m\<lparr>cells := (cells m)(a := take i (cells m a) @ map word_of_int (v # vs))\<rparr>)"
    using tk by simp
  finally show ?case .
qed

section \<open>Stopping outside the stopable states\<close>

text \<open>
  C2.  When \<^verbatim>\<open>stop()\<close> is called while the current play state is not in the stopable set
  (the initial \<^verbatim>\<open>undefined\<close> included), it returns \<open>-1\<close> at once and the world is the one
  it was called in: no word of the state vector is written, \<^verbatim>\<open>STOP\<close>, \<^verbatim>\<open>IS_PAUSED\<close> and
  \<^verbatim>\<open>IS_PERFORMING\<close> among them, nothing is notified and no resolver is installed.
\<close>

theorem stop_outside_stopable:
  assumes "\<not> stopable (currentPlayState (main w))"
  shows "csoundStop C w = Some (Returned (Number (- 1)), w)"
  using assms by (simp add: csoundStop_def)

theorem stop_outside_stopable_witness:
  "\<not> stopable (currentPlayState (main fresh_host)) \<and>
   csoundStop sample_constants fresh_host = Some (Returned (Number (- 1)), fresh_host)"
  using stop_outside_stopable [of fresh_host sample_constants]
  by (simp add: fresh_host_eq stopable_def)

section \<open>Pause and resume whose guard fails\<close>

lemma pause_guard_eq:
  assumes "wf_constants C" and "length (host_state w) = length (initialSharedState C)"
  shows "pause_guard C w =
    Some (peek w (IS_PAUSED C) \<noteq> 1 \<and> peek w (STOP C) \<noteq> 1 \<and> peek w (IS_PERFORMING C) = 1)"
  using assms in_bounds [OF assms(1)]
  by (simp add: pause_guard_def load_in_range host_state_def peek_def)

lemma resume_guard_eq:
  assumes "wf_constants C" and "length (host_state w) = length (initialSharedState C)"
  shows "resume_guard C w =
    Some (peek w (IS_PAUSED C) = 1 \<and> peek w (STOP C) \<noteq> 1 \<and> peek w (IS_PERFORMING C) = 1)"
  using assms in_bounds [OF assms(1)]
  by (simp add: resume_guard_def load_in_range host_state_def peek_def)

text \<open>
  C10.  With a well-formed constants table and a state vector as long as the template:
  when \<^verbatim>\<open>csoundPause\<close> is called with \<^verbatim>\<open>IS_PAUSED = 1\<close>, or \<^verbatim>\<open>STOP = 1\<close>, or
  \<^verbatim>\<open>IS_PERFORMING\<close> different from 1, and when \<^verbatim>\<open>csoundResume\<close> is called with
  \<^verbatim>\<open>IS_PAUSED\<close> different from 1 (0 in particular), or \<^verbatim>\<open>STOP = 1\<close>, or \<^verbatim>\<open>IS_PERFORMING\<close>
  different from 1, the call resolves with \<^verbatim>\<open>undefined\<close> and leaves the world as it was:
  every word of the state vector, the current play state and the trace (so no
  play-state change is raised).
\<close>

theorem pause_resume_guard_fails:
  assumes "wf_constants C" and "length (host_state w) = length (initialSharedState C)"
  shows "(peek w (IS_PAUSED C) = 1 \<or> peek w (STOP C) = 1 \<or> peek w (IS_PERFORMING C) \<noteq> 1
            \<longrightarrow> csoundPause C w = Some (Undefined, w)) \<and>
         (peek w (IS_PAUSED C) \<noteq> 1 \<or> peek w (STOP C) = 1 \<or> peek w (IS_PERFORMING C) \<noteq> 1
            \<longrightarrow> csoundResume C w = Some (Undefined, w))"
  using pause_guard_eq [OF assms] resume_guard_eq [OF assms]
  by (auto simp: csoundPause_def csoundResume_def)

theorem pause_resume_guard_fails_witness:
  "wf_constants sample_constants \<and>
   length (host_state fresh_host) = length (initialSharedState sample_constants) \<and>
   peek fresh_host (IS_PERFORMING sample_constants) \<noteq> 1 \<and>
   csoundPause sample_constants fresh_host = Some (Undefined, fresh_host) \<and>
   csoundResume sample_constants fresh_host = Some (Undefined, fresh_host)"
proof -
  have len: "length (host_state fresh_host) = length (initialSharedState sample_constants)"
    by (simp add: fresh_host_eq host_state_def sample_constants_def)
  have np: "peek fresh_host (IS_PERFORMING sample_constants) \<noteq> 1"
    by (simp add: fresh_host_eq host_state_def peek_def sample_constants_def)
  show ?thesis
    using pause_resume_guard_fails [OF wf_sample len] wf_sample len np by simp
qed

section \<open>The host at the end of a realtime performance\<close>

lemma sint_word_of_int_32:
  "- (2 ^ 31) \<le> v \<Longrightarrow> v < 2 ^ 31 \<Longrightarrow> sint (word_of_int v :: 32 word) = v"
  by (simp add: sint_sbintrunc' signed_take_bit_int_eq_self)

lemma store_in_range:
  "i < length (cells m a) \<Longrightarrow>
   Atomics_store m a i (Some v) =
     Some (m\<lparr>cells := (cells m)(a := (cells m a)[i := word_of_int v])\<rparr>)"
  by (simp add: Atomics_store_def ToInt32_def)

lemma mem_resolve_stop [simp]: "mem (resolve_stop w) = mem w"
  by (simp add: resolve_stop_def emit_def)

lemma mem_emit [simp]: "mem (emit e w) = mem w"
  by (simp add: emit_def)

lemma main_emit [simp]: "main (emit e w) = main w"
  by (simp add: emit_def)

lemma trace_emit [simp]: "trace (emit e w) = trace w @ [e]"
  by (simp add: emit_def)

lemma pointer_resolve_stop [simp]:
  "audioStatePointer (main (resolve_stop w)) = audioStatePointer (main w)"
  by (simp add: resolve_stop_def emit_def)

lemma mem_resolve_start [simp]: "mem (resolve_start p w) = mem w"
  by (simp add: resolve_start_def emit_def)

lemma pointer_resolve_start [simp]:
  "audioStatePointer (main (resolve_start p w)) = audioStatePointer (main w)"
  by (simp add: resolve_start_def emit_def)

lemma on_ended:
  assumes "length (host_state w) = length (initialSharedState C)"
  shows "\<exists>w'. onPlayStateChange C realtimePerformanceEnded w = Some w' \<and>
           host_state w' = map word_of_int (initialSharedState C) \<and>
           trace w' = trace (resolve_stop w) @
             [Trigger realtimePerformanceEnded, ForwardToAudioWorker realtimePerformanceEnded] @
             (if startPromiz (main w) then [ResolveStart] else []) @
             [PlayStateCallbacks realtimePerformanceEnded]"
proof -
  let ?w0 = "w\<lparr>main := (main w)\<lparr>currentPlayState := Some realtimePerformanceEnded\<rparr>\<rparr>"
  let ?w1 = "emit (Trigger realtimePerformanceEnded) (resolve_stop ?w0)"
  have a: "audioStatePointer (main ?w1) = audioStatePointer (main w)" by simp
  have m: "mem ?w1 = mem w" by simp
  have len: "0 + length (initialSharedState C) = length (cells (mem ?w1) (audioStatePointer (main ?w1)))"
    using assms by (simp add: host_state_def)
  show ?thesis
    unfolding onPlayStateChange_def on_case_def
    using store_each_cells [OF len]
    by (simp add: host_state_def Let_def resolve_start_def resolve_stop_def emit_def)
qed

text \<open>
  C7.  When the host handles the play-state change \<^verbatim>\<open>realtimePerformanceEnded\<close> and its
  state vector is as long as the template (the constructor and \<^verbatim>\<open>csoundReset\<close> allocate
  it so), the vector afterwards is the template, entry by entry, each entry converted
  to a 32-bit word; when the entries of the template are 32-bit signed numbers, the
  numbers read from the vector are the template itself.
\<close>

theorem ended_restores_template:
  assumes "length (host_state w) = length (initialSharedState C)"
  shows "\<exists>w'. onPlayStateChange C realtimePerformanceEnded w = Some w' \<and>
           host_state w' = map word_of_int (initialSharedState C) \<and>
           (list_all (\<lambda>v. - (2 ^ 31) \<le> v \<and> v < 2 ^ 31) (initialSharedState C) \<longrightarrow>
              map sint (host_state w') = initialSharedState C)"
proof -
  from on_ended [OF assms] obtain w' where
    w': "onPlayStateChange C realtimePerformanceEnded w = Some w'"
    and hs: "host_state w' = map word_of_int (initialSharedState C)" by blast
  have "map sint (map word_of_int vs :: i32 list) = vs"
    if "list_all (\<lambda>v. - (2 ^ 31) \<le> v \<and> v < 2 ^ 31) vs" for vs :: "int list"
    using that by (induction vs) (simp_all add: sint_word_of_int_32)
  with w' hs show ?thesis by auto
qed

theorem ended_restores_template_witness:
  "length (host_state paused_host) = length (initialSharedState sample_constants) \<and>
   list_all (\<lambda>v. - (2 ^ 31) \<le> v \<and> v < 2 ^ 31) (initialSharedState sample_constants) \<and>
   (\<exists>w'. onPlayStateChange sample_constants realtimePerformanceEnded paused_host = Some w' \<and>
      map sint (host_state w') = initialSharedState sample_constants)"
proof -
  have len: "length (host_state paused_host) = length (initialSharedState sample_constants)"
    by (simp add: paused_host_def host_state_def sample_constants_def)
  have rng: "list_all (\<lambda>v. - (2 ^ 31) \<le> v \<and> v < 2 ^ 31) (initialSharedState sample_constants)"
    by (simp add: sample_constants_def)
  show ?thesis
    using ended_restores_template [OF len] len rng by blast
qed

section \<open>Stopping in a stopable state\<close>

lemma notify_in_range:
  "i < length (cells (mem w) a) \<Longrightarrow> Atomics_notify w a i = Some (emit (Notify a i) w)"
  by (simp add: Atomics_notify_def)

lemma field_distinct:
  "wf_constants C \<Longrightarrow> distinct (field_indices C)"
  by (simp add: wf_constants_def)

lemma csoundStop_stopable:
  assumes wf: "wf_constants C"
    and len: "length (host_state w) = length (initialSharedState C)"
    and same: "ATOMIC_NOFITY C = ATOMIC_NOTIFY C"
    and st: "stopable (currentPlayState (main w))"
  shows "\<exists>w'. csoundStop C w = Some (AwaitingStop (Number 0), w') \<and>
      peek w' (STOP C) = 1 \<and> peek w' (IS_PERFORMING C) = 0 \<and>
      peek w' (IS_PAUSED C) =
        (if currentPlayState (main w) = Some realtimePerformancePaused then 0
         else peek w (IS_PAUSED C)) \<and>
      (currentPlayState (main w) \<noteq> Some renderStarted \<longrightarrow> peek w' (ATOMIC_NOTIFY C) = 1) \<and>
      trace w' = trace w @
        (if currentPlayState (main w) = Some realtimePerformancePaused
         then [Notify (audioStatePointer (main w)) (IS_PAUSED C)] else []) @
        (if currentPlayState (main w) \<noteq> Some renderStarted
         then [Notify (audioStatePointer (main w)) (ATOMIC_NOTIFY C)] else []) \<and>
      stopPromiz (main w') \<and> startPromiz (main w') = startPromiz (main w) \<and>
      length (host_state w') = length (initialSharedState C)"
proof -
  have d: "STOP C \<noteq> IS_PERFORMING C" "STOP C \<noteq> IS_PAUSED C" "STOP C \<noteq> ATOMIC_NOTIFY C"
    "IS_PERFORMING C \<noteq> IS_PAUSED C" "IS_PERFORMING C \<noteq> ATOMIC_NOTIFY C"
    "IS_PAUSED C \<noteq> ATOMIC_NOTIFY C"
    using field_distinct [OF wf] by (auto simp: field_indices_def)
  have b: "STOP C < length (cells (mem w) (audioStatePointer (main w)))"
    "IS_PERFORMING C < length (cells (mem w) (audioStatePointer (main w)))"
    "IS_PAUSED C < length (cells (mem w) (audioStatePointer (main w)))"
    "ATOMIC_NOTIFY C < length (cells (mem w) (audioStatePointer (main w)))"
    using in_bounds [OF wf] len by (simp_all add: host_state_def)
  show ?thesis
    using st len b d same
    by (auto simp: csoundStop_def Let_def store_in_range notify_in_range host_state_def peek_def
        emit_def)
qed

lemma ended_resolves_stop:
  assumes "stopPromiz (main w)" and "length (host_state w) = length (initialSharedState C)"
    and "p = realtimePerformanceEnded \<or> p = renderEnded"
  shows "\<exists>w' evs. onPlayStateChange C p w = Some w' \<and> trace w' = trace w @ evs \<and>
           ResolveStop \<in> set evs"
proof (cases "p = realtimePerformanceEnded")
  case True
  from on_ended [OF assms(2)] obtain w' where
    "onPlayStateChange C realtimePerformanceEnded w = Some w'"
    "trace w' = trace (resolve_stop w) @
       [Trigger realtimePerformanceEnded, ForwardToAudioWorker realtimePerformanceEnded] @
       (if startPromiz (main w) then [ResolveStart] else []) @
       [PlayStateCallbacks realtimePerformanceEnded]" by blast
  with assms(1) True show ?thesis
    by (simp add: resolve_stop_def emit_def)
next
  case False
  with assms(3) have p: "p = renderEnded" by simp
  show ?thesis
    using assms(1) unfolding p
    by (simp add: onPlayStateChange_def on_case_def resolve_stop_def resolve_start_def emit_def
        Let_def)
qed

text \<open>
  C1, as amended.  Let the constants table be well formed with both spellings of the
  doorbell at one index, and the state vector as long as the template.  A call of
  \<^verbatim>\<open>stop()\<close> in a stopable play state stores \<^verbatim>\<open>STOP = 1\<close> and \<^verbatim>\<open>IS_PERFORMING = 0\<close>; when
  the play state is \<^verbatim>\<open>realtimePerformancePaused\<close> it stores \<^verbatim>\<open>IS_PAUSED = 0\<close> and notifies
  \<^verbatim>\<open>IS_PAUSED\<close>, and in every other stopable state it leaves \<^verbatim>\<open>IS_PAUSED\<close> as it is and
  does not notify it; when the play state is not \<^verbatim>\<open>renderStarted\<close> it stores 1 into the
  doorbell and notifies it.  The call is then suspended (it has returned nothing yet),
  and when the host handles \<^verbatim>\<open>realtimePerformanceEnded\<close> or \<^verbatim>\<open>renderEnded\<close> next, the stop
  promise is resolved and the call returns 0.
\<close>

theorem stop_in_stopable:
  assumes wf: "wf_constants C"
    and len: "length (host_state w) = length (initialSharedState C)"
    and same: "ATOMIC_NOFITY C = ATOMIC_NOTIFY C"
    and st: "stopable (currentPlayState (main w))"
  shows "\<exists>w'. csoundStop C w = Some (AwaitingStop (Number 0), w') \<and>
      peek w' (STOP C) = 1 \<and> peek w' (IS_PERFORMING C) = 0 \<and>
      peek w' (IS_PAUSED C) =
        (if currentPlayState (main w) = Some realtimePerformancePaused then 0
         else peek w (IS_PAUSED C)) \<and>
      (currentPlayState (main w) \<noteq> Some renderStarted \<longrightarrow> peek w' (ATOMIC_NOTIFY C) = 1) \<and>
      trace w' = trace w @
        (if currentPlayState (main w) = Some realtimePerformancePaused
         then [Notify (audioStatePointer (main w)) (IS_PAUSED C)] else []) @
        (if currentPlayState (main w) \<noteq> Some renderStarted
         then [Notify (audioStatePointer (main w)) (ATOMIC_NOTIFY C)] else []) \<and>
      delivered (AwaitingStop (Number 0)) [] = None \<and>
      (\<forall>p \<in> {realtimePerformanceEnded, renderEnded}.
         \<exists>w'' evs. onPlayStateChange C p w' = Some w'' \<and> trace w'' = trace w' @ evs \<and>
           delivered (AwaitingStop (Number 0)) evs = Some (Number 0))"
proof -
  from csoundStop_stopable [OF wf len same st] obtain w' where
    s: "csoundStop C w = Some (AwaitingStop (Number 0), w')"
    and f: "peek w' (STOP C) = 1" "peek w' (IS_PERFORMING C) = 0"
      "peek w' (IS_PAUSED C) =
        (if currentPlayState (main w) = Some realtimePerformancePaused then 0
         else peek w (IS_PAUSED C))"
      "currentPlayState (main w) \<noteq> Some renderStarted \<longrightarrow> peek w' (ATOMIC_NOTIFY C) = 1"
    and t: "trace w' = trace w @
        (if currentPlayState (main w) = Some realtimePerformancePaused
         then [Notify (audioStatePointer (main w)) (IS_PAUSED C)] else []) @
        (if currentPlayState (main w) \<noteq> Some renderStarted
         then [Notify (audioStatePointer (main w)) (ATOMIC_NOTIFY C)] else [])"
    and p: "stopPromiz (main w')" and l: "length (host_state w') = length (initialSharedState C)"
    by blast
  have r: "\<exists>w'' evs. onPlayStateChange C q w' = Some w'' \<and> trace w'' = trace w' @ evs \<and>
           delivered (AwaitingStop (Number 0)) evs = Some (Number 0)"
    if "q = realtimePerformanceEnded \<or> q = renderEnded" for q
    using ended_resolves_stop [OF p l that] by auto
  show ?thesis
    using s f t r by (intro exI [of _ w']) simp
qed

theorem stop_in_stopable_witness:
  "wf_constants sample_constants \<and>
   length (host_state paused_host) = length (initialSharedState sample_constants) \<and>
   ATOMIC_NOFITY sample_constants = ATOMIC_NOTIFY sample_constants \<and>
   stopable (currentPlayState (main paused_host)) \<and>
   (\<exists>w'. csoundStop sample_constants paused_host = Some (AwaitingStop (Number 0), w') \<and>
      peek w' (STOP sample_constants) = 1 \<and> peek w' (IS_PERFORMING sample_constants) = 0 \<and>
      peek w' (IS_PAUSED sample_constants) = 0 \<and>
      peek w' (ATOMIC_NOTIFY sample_constants) = 1 \<and>
      trace w' = [Notify 0 (IS_PAUSED sample_constants), Notify 0 (ATOMIC_NOTIFY sample_constants)])"
proof -
  have len: "length (host_state paused_host) = length (initialSharedState sample_constants)"
    by (simp add: paused_host_def host_state_def sample_constants_def)
  have same: "ATOMIC_NOFITY sample_constants = ATOMIC_NOTIFY sample_constants"
    by (simp add: sample_constants_def)
  have st: "stopable (currentPlayState (main paused_host))"
    by (simp add: paused_host_def stopable_def stopableStates_def)
  have ps: "currentPlayState (main paused_host) = Some realtimePerformancePaused"
    "audioStatePointer (main paused_host) = 0" "trace paused_host = []"
    by (simp_all add: paused_host_def)
  from stop_in_stopable [OF wf_sample len same st] obtain w' where
    "csoundStop sample_constants paused_host = Some (AwaitingStop (Number 0), w')"
    "peek w' (STOP sample_constants) = 1" "peek w' (IS_PERFORMING sample_constants) = 0"
    "peek w' (IS_PAUSED sample_constants) = 0"
    "peek w' (ATOMIC_NOTIFY sample_constants) = 1"
    "trace w' = [Notify 0 (IS_PAUSED sample_constants), Notify 0 (ATOMIC_NOTIFY sample_constants)]"
    unfolding ps by auto
  with wf_sample len same st show ?thesis by blast
qed

text \<open>
  C1 as stated fails.  In the world reached by the race above the play state is
  \<^verbatim>\<open>realtimePerformanceStarted\<close>, which is stopable, and \<^verbatim>\<open>IS_PAUSED\<close> is 1; \<^verbatim>\<open>stop()\<close> is
  suspended with \<^verbatim>\<open>IS_PAUSED\<close> still 1 and has notified the doorbell only.
\<close>

theorem stop_keeps_IS_PAUSED_counterexample:
  "do {
     w \<leftarrow> paused_before_started;
     (r, w') \<leftarrow> csoundStop sample_constants w;
     Some (currentPlayState (main w), peek w (IS_PAUSED sample_constants), r,
           peek w' (IS_PAUSED sample_constants), drop (length (trace w)) (trace w'))
   } = Some (Some realtimePerformanceStarted, 1, AwaitingStop (Number 0), 1,
             [Notify 0 (ATOMIC_NOTIFY sample_constants)])"
  by code_simp

section \<open>Setup of a realtime performance\<close>

lemma sab_setup_eq:
  assumes wf: "wf_constants C"
    and len: "length (cells (mem w) a) = length (initialSharedState C)"
  shows "sab_setup C a mb e w =
    Some (\<lparr>statePointer = a, midiView = mb,
            isRequestingRtMidiInput = is_requesting_rtmidi e,
            nchnls = get_nchnls e,
            nchnlsInput = (if input_name_has_adc e then get_nchnls_i e else 0),
            ksmps = get_ksmps e,
            hw_B = sint (word_of_int (initialSharedState C ! HW_BUFFER_SIZE C) :: i32),
            sw_b = sint (word_of_int (initialSharedState C ! SW_BUFFER_SIZE C) :: i32),
            lastReturn = 0, performanceEnded = False, firstRound = True, csound = e\<rparr>,
          emit (Broadcast realtimePerformanceStarted)
            (w\<lparr>mem := (mem w)\<lparr>cells := (cells (mem w))
               (a := (map word_of_int (initialSharedState C))
                  [NCHNLS C := word_of_int (get_nchnls e),
                   NCHNLS_I C := word_of_int (if input_name_has_adc e then get_nchnls_i e else 0),
                   SAMPLE_RATE C := word_of_int (get_sr e),
                   IS_REQUESTING_RTMIDI C := word_of_int (is_requesting_rtmidi e),
                   IS_PERFORMING C := 1])\<rparr>\<rparr>))"
proof -
  have d: "HW_BUFFER_SIZE C \<noteq> NCHNLS C" "HW_BUFFER_SIZE C \<noteq> NCHNLS_I C"
    "HW_BUFFER_SIZE C \<noteq> SAMPLE_RATE C" "HW_BUFFER_SIZE C \<noteq> IS_REQUESTING_RTMIDI C"
    "SW_BUFFER_SIZE C \<noteq> NCHNLS C" "SW_BUFFER_SIZE C \<noteq> NCHNLS_I C"
    "SW_BUFFER_SIZE C \<noteq> SAMPLE_RATE C" "SW_BUFFER_SIZE C \<noteq> IS_REQUESTING_RTMIDI C"
    using field_distinct [OF wf] by (auto simp: field_indices_def)
  have b: "NCHNLS C < length (initialSharedState C)" "NCHNLS_I C < length (initialSharedState C)"
    "SAMPLE_RATE C < length (initialSharedState C)"
    "IS_REQUESTING_RTMIDI C < length (initialSharedState C)"
    "HW_BUFFER_SIZE C < length (initialSharedState C)"
    "SW_BUFFER_SIZE C < length (initialSharedState C)"
    "IS_PERFORMING C < length (initialSharedState C)"
    using in_bounds [OF wf] by simp_all
  have l0: "0 + length (initialSharedState C) = length (cells (mem w) a)"
    using len by simp
  show ?thesis
    unfolding sab_setup_def
    using d b
    by (simp add: store_each_cells [OF l0] store_in_range load_in_range Let_def)
qed

text \<open>
  C6, as amended.  With a well-formed constants table and a state vector as long as the
  template, the setup succeeds and ends with the broadcast of
  \<^verbatim>\<open>realtimePerformanceStarted\<close>; at that moment \<^verbatim>\<open>IS_PERFORMING\<close> is 1 and \<^verbatim>\<open>NCHNLS\<close> and
  \<^verbatim>\<open>SAMPLE_RATE\<close> hold the engine's \<^verbatim>\<open>csoundGetNchnls\<close> and \<^verbatim>\<open>csoundGetSr\<close> as 32-bit words
  (the numbers themselves when they are 32-bit signed).  The engine's
  \<^verbatim>\<open>csoundGetKsmps\<close> is kept in the worker's variable \<^verbatim>\<open>ksmps\<close> only: the world after the
  setup is the same whatever value the engine returns for it.
\<close>

theorem started_publishes_parameters:
  assumes wf: "wf_constants C"
    and len: "length (cells (mem w) a) = length (initialSharedState C)"
  shows "\<exists>wk w'. sab_setup C a mb e w = Some (wk, w') \<and>
      statePointer wk = a \<and>
      trace w' = trace w @ [Broadcast realtimePerformanceStarted] \<and>
      field wk (mem w') (IS_PERFORMING C) = 1 \<and>
      worker_state wk (mem w') ! NCHNLS C = word_of_int (get_nchnls e) \<and>
      worker_state wk (mem w') ! SAMPLE_RATE C = word_of_int (get_sr e) \<and>
      (int32 (get_nchnls e) \<longrightarrow> field wk (mem w') (NCHNLS C) = get_nchnls e) \<and>
      (int32 (get_sr e) \<longrightarrow> field wk (mem w') (SAMPLE_RATE C) = get_sr e) \<and>
      ksmps wk = get_ksmps e \<and>
      (\<forall>k. \<exists>wk2. sab_setup C a mb (e\<lparr>get_ksmps := k\<rparr>) w = Some (wk2, w'))"
proof -
  have d: "NCHNLS C \<noteq> NCHNLS_I C" "NCHNLS C \<noteq> SAMPLE_RATE C"
    "NCHNLS C \<noteq> IS_REQUESTING_RTMIDI C" "NCHNLS C \<noteq> IS_PERFORMING C"
    "SAMPLE_RATE C \<noteq> IS_REQUESTING_RTMIDI C" "SAMPLE_RATE C \<noteq> IS_PERFORMING C"
    using field_distinct [OF wf] by (auto simp: field_indices_def)
  have b: "NCHNLS C < length (initialSharedState C)"
    "SAMPLE_RATE C < length (initialSharedState C)"
    "IS_PERFORMING C < length (initialSharedState C)"
    using in_bounds [OF wf] by simp_all
  show ?thesis
    using d b
    by (simp add: sab_setup_eq [OF wf len] field_def worker_state_def int32_def
        sint_word_of_int_32)
qed

theorem started_publishes_parameters_witness:
  "wf_constants sample_constants \<and>
   length (cells (mem fresh_host) 0) = length (initialSharedState sample_constants) \<and>
   int32 (get_nchnls sample_engine) \<and> int32 (get_sr sample_engine) \<and>
   (\<exists>wk w'. sab_setup sample_constants 0 1 sample_engine fresh_host = Some (wk, w') \<and>
      field wk (mem w') (IS_PERFORMING sample_constants) = 1 \<and>
      field wk (mem w') (NCHNLS sample_constants) = 2 \<and>
      field wk (mem w') (SAMPLE_RATE sample_constants) = 44100 \<and>
      ksmps wk = 4)"
proof -
  have len: "length (cells (mem fresh_host) 0) = length (initialSharedState sample_constants)"
    by (simp add: fresh_host_eq sample_constants_def)
  have i: "int32 (get_nchnls sample_engine)" "int32 (get_sr sample_engine)"
    by (simp_all add: int32_def sample_engine_def)
  have v: "get_nchnls sample_engine = 2" "get_sr sample_engine = 44100"
    "get_ksmps sample_engine = 4"
    by (simp_all add: sample_engine_def)
  from started_publishes_parameters [OF wf_sample len, of 1 sample_engine] i
  obtain wk w' where
    "sab_setup sample_constants 0 1 sample_engine fresh_host = Some (wk, w')"
    "field wk (mem w') (IS_PERFORMING sample_constants) = 1"
    "field wk (mem w') (NCHNLS sample_constants) = get_nchnls sample_engine"
    "field wk (mem w') (SAMPLE_RATE sample_constants) = get_sr sample_engine"
    "ksmps wk = get_ksmps sample_engine"
    by blast
  with wf_sample len i v show ?thesis by auto
qed

text \<open>
  C6 as stated fails: the state vector has no field for \<^verbatim>\<open>ksmps\<close>.  After the setup with
  the sample engine, whose \<^verbatim>\<open>ksmps\<close> is 4, the worker's variable holds 4 and no word of
  the vector does.
\<close>

theorem ksmps_not_published_counterexample:
  "map_option
     (\<lambda>(wk, w). (get_ksmps (csound wk), ksmps wk, map sint (worker_state wk (mem w)),
        get_ksmps (csound wk) \<in> set (map sint (worker_state wk (mem w)))))
     engine_started =
   Some (4, 4, [1, 0, 0, 0, 2, 0, 44100, 4096, 8, 0, 0, 0, 0, 1, 0, 0], False)"
  by code_simp

section \<open>Frame conditions of the render loop\<close>

lemma unchanged_but_refl: "unchanged_but S xs xs"
  by (simp add: unchanged_but_def)

lemma unchanged_but_trans:
  "unchanged_but S xs ys \<Longrightarrow> unchanged_but T ys zs \<Longrightarrow> unchanged_but (S \<union> T) xs zs"
  by (simp add: unchanged_but_def)

lemma store_Some:
  "Atomics_store m a i v = Some m' \<Longrightarrow>
     i < length (cells m a) \<and> m' = m\<lparr>cells := (cells m)(a := (cells m a)[i := ToInt32 v])\<rparr>"
  by (auto simp: Atomics_store_def split: if_splits)

lemma add_Some:
  "Atomics_add m a i v = Some m' \<Longrightarrow>
     i < length (cells m a) \<and>
     m' = m\<lparr>cells := (cells m)(a := (cells m a)[i := cells m a ! i + word_of_int v])\<rparr>"
  by (auto simp: Atomics_add_def split: if_splits)

lemma sub_Some:
  "Atomics_sub m a i v = Some m' \<Longrightarrow>
     i < length (cells m a) \<and>
     m' = m\<lparr>cells := (cells m)(a := (cells m a)[i := cells m a ! i - word_of_int v])\<rparr>"
  by (auto simp: Atomics_sub_def split: if_splits)

lemma load_Some:
  "Atomics_load m a i = Some v \<Longrightarrow> i < length (cells m a) \<and> v = sint (cells m a ! i)"
  by (auto simp: Atomics_load_def split: if_splits)

lemma advance_index_frame:
  assumes "advance_index m a f B = Some m'"
  shows "unchanged_but {f} (cells m a) (cells m' a)"
  using assms
  by (auto simp: advance_index_def Atomics_add_def Atomics_load_def Atomics_store_def
      unchanged_but_def split: if_splits)

lemma perform_if_due_locals:
  "statePointer (perform_if_due p wk) = statePointer wk \<and>
   sw_b (perform_if_due p wk) = sw_b wk \<and> hw_B (perform_if_due p wk) = hw_B wk \<and>
   ksmps (perform_if_due p wk) = ksmps wk"
  by (simp add: perform_if_due_def split: prod.splits)

lemma frame_step_frame:
  assumes "frame_step C hasInput owi i (wk, m) = Some (wk', m')"
  shows "statePointer wk' = statePointer wk \<and> sw_b wk' = sw_b wk \<and> hw_B wk' = hw_B wk \<and>
         ksmps wk' = ksmps wk \<and>
         unchanged_but {INPUT_READ_INDEX C, OUTPUT_WRITE_INDEX C}
           (cells m (statePointer wk)) (cells m' (statePointer wk))"
proof -
  from assms obtain m1 where
    m1: "(if hasInput
          then advance_index m (statePointer wk) (INPUT_READ_INDEX C) (hw_B wk)
          else Some m) = Some m1"
    and m2: "advance_index m1 (statePointer wk) (OUTPUT_WRITE_INDEX C) (hw_B wk) = Some m'"
    and wk': "wk' = perform_if_due
        (js_rem_num (js_rem (owi + i) (hw_B wk)) (ksmps wk)) wk"
    by (auto simp: frame_step_def Let_def split: Option.bind_splits)
  have u1: "unchanged_but {INPUT_READ_INDEX C} (cells m (statePointer wk)) (cells m1 (statePointer wk))"
    using m1 by (auto simp: unchanged_but_refl dest: advance_index_frame split: if_splits)
  have u2: "unchanged_but {OUTPUT_WRITE_INDEX C} (cells m1 (statePointer wk)) (cells m' (statePointer wk))"
    using m2 by (rule advance_index_frame)
  from unchanged_but_trans [OF u1 u2] show ?thesis
    by (simp add: wk' perform_if_due_locals insert_commute)
qed

lemma frames_loop_frame:
  "frames_loop C hasInput owi i n (wk, m) = Some (wk', m') \<Longrightarrow>
   statePointer wk' = statePointer wk \<and> sw_b wk' = sw_b wk \<and> hw_B wk' = hw_B wk \<and>
   ksmps wk' = ksmps wk \<and>
   unchanged_but {INPUT_READ_INDEX C, OUTPUT_WRITE_INDEX C}
     (cells m (statePointer wk)) (cells m' (statePointer wk))"
proof (induction n arbitrary: i wk m)
  case 0
  then show ?case by (simp add: unchanged_but_refl)
next
  case (Suc n)
  from Suc.prems obtain wk1 m1 where
    s1: "frame_step C hasInput owi i (wk, m) = Some (wk1, m1)"
    and s2: "frames_loop C hasInput owi (i + 1) n (wk1, m1) = Some (wk', m')"
    by (auto split: Option.bind_splits)
  from frame_step_frame [OF s1] Suc.IH [OF s2] show ?case
    by (auto dest: unchanged_but_trans)
qed

lemma drain_midi_frame:
  assumes "drain_midi C wk m = Some (wk', m')"
  shows "statePointer wk' = statePointer wk \<and> sw_b wk' = sw_b wk \<and> hw_B wk' = hw_B wk \<and>
         ksmps wk' = ksmps wk \<and>
         unchanged_but {RTMIDI_INDEX C, AVAIL_RTMIDI_EVENTS C}
           (cells m (statePointer wk)) (cells m' (statePointer wk))"
  using assms
  by (auto simp: drain_midi_def unchanged_but_def Atomics_store_def Atomics_sub_def
      split: if_splits Option.bind_splits)

lemma render_counters:
  assumes wf: "wf_constants C"
    and r: "render C wk m = Some (wk', m')"
  shows "statePointer wk' = statePointer wk \<and>
     cells m' (statePointer wk) ! AVAIL_OUT_BUFS C =
       cells m (statePointer wk) ! AVAIL_OUT_BUFS C + word_of_int (sw_b wk) \<and>
     cells m' (statePointer wk) ! AVAIL_IN_BUFS C =
       (if sw_b wk \<le> sint (cells m (statePointer wk) ! AVAIL_IN_BUFS C)
        then cells m (statePointer wk) ! AVAIL_IN_BUFS C - word_of_int (sw_b wk)
        else cells m (statePointer wk) ! AVAIL_IN_BUFS C)"
proof -
  let ?a = "statePointer wk"
  have d: "AVAIL_IN_BUFS C \<noteq> AVAIL_OUT_BUFS C" "AVAIL_IN_BUFS C \<noteq> ATOMIC_NOTIFY C"
    "AVAIL_OUT_BUFS C \<noteq> ATOMIC_NOTIFY C"
    "AVAIL_IN_BUFS C \<notin> {RTMIDI_INDEX C, AVAIL_RTMIDI_EVENTS C}"
    "AVAIL_OUT_BUFS C \<notin> {RTMIDI_INDEX C, AVAIL_RTMIDI_EVENTS C}"
    "AVAIL_IN_BUFS C \<notin> {INPUT_READ_INDEX C, OUTPUT_WRITE_INDEX C}"
    "AVAIL_OUT_BUFS C \<notin> {INPUT_READ_INDEX C, OUTPUT_WRITE_INDEX C}"
    using field_distinct [OF wf] by (auto simp: field_indices_def)
  from r obtain wk1 m1 avail owi wk2 m2 m3 m4 where
    dm: "drain_midi C wk m = Some (wk1, m1)"
    and av: "Atomics_load m1 (statePointer wk1) (AVAIL_IN_BUFS C) = Some avail"
    and fl: "frames_loop C (sw_b wk1 \<le> avail) owi 0 (nat (sw_b wk1)) (wk1, m1) = Some (wk2, m2)"
    and s3: "(if sw_b wk1 \<le> avail
              then Atomics_sub m2 (statePointer wk2) (AVAIL_IN_BUFS C) (sw_b wk1)
              else Some m2) = Some m3"
    and s4: "Atomics_add m3 (statePointer wk2) (AVAIL_OUT_BUFS C) (sw_b wk1) = Some m4"
    and s5: "Atomics_store m4 (statePointer wk2) (ATOMIC_NOTIFY C) (Some 0) = Some m'"
    and wk': "wk' = wk2"
    by (auto simp: render_def Let_def handleSABCallbacks_def
        split: Option.bind_splits prod.splits)
  from drain_midi_frame [OF dm] have
    l1: "statePointer wk1 = ?a" "sw_b wk1 = sw_b wk"
    and u1: "unchanged_but {RTMIDI_INDEX C, AVAIL_RTMIDI_EVENTS C} (cells m ?a) (cells m1 ?a)"
    by simp_all
  from frames_loop_frame [OF fl] l1 have
    l2: "statePointer wk2 = ?a"
    and u2: "unchanged_but {INPUT_READ_INDEX C, OUTPUT_WRITE_INDEX C} (cells m1 ?a) (cells m2 ?a)"
    by simp_all
  from load_Some [OF av] l1 have
    avail: "avail = sint (cells m1 ?a ! AVAIL_IN_BUFS C)"
    and bi: "AVAIL_IN_BUFS C < length (cells m1 ?a)" by simp_all
  have in12: "cells m2 ?a ! AVAIL_IN_BUFS C = cells m ?a ! AVAIL_IN_BUFS C"
    "cells m1 ?a ! AVAIL_IN_BUFS C = cells m ?a ! AVAIL_IN_BUFS C"
    "cells m2 ?a ! AVAIL_OUT_BUFS C = cells m ?a ! AVAIL_OUT_BUFS C"
    "length (cells m2 ?a) = length (cells m1 ?a)"
    using u1 u2 d by (simp_all add: unchanged_but_def)
  have m3: "cells m3 ?a ! AVAIL_IN_BUFS C =
       (if sw_b wk \<le> sint (cells m ?a ! AVAIL_IN_BUFS C)
        then cells m ?a ! AVAIL_IN_BUFS C - word_of_int (sw_b wk)
        else cells m ?a ! AVAIL_IN_BUFS C)"
    "cells m3 ?a ! AVAIL_OUT_BUFS C = cells m ?a ! AVAIL_OUT_BUFS C"
    "length (cells m3 ?a) = length (cells m1 ?a)"
    using s3 in12 bi d l1 l2 avail
    by (auto simp: Atomics_sub_def split: if_splits)
  from add_Some [OF s4] have
    m4: "m4 = m3\<lparr>cells := (cells m3)(?a := (cells m3 ?a)
           [AVAIL_OUT_BUFS C := cells m3 ?a ! AVAIL_OUT_BUFS C + word_of_int (sw_b wk)])\<rparr>"
    and bo: "AVAIL_OUT_BUFS C < length (cells m3 ?a)"
    using l1 l2 by simp_all
  from store_Some [OF s5] have
    m5: "m' = m4\<lparr>cells := (cells m4)(?a := (cells m4 ?a)[ATOMIC_NOTIFY C := ToInt32 (Some 0)])\<rparr>"
    using l2 by simp
  show ?thesis
    using m3 bo bi d l2 by (simp add: m5 m4 wk')
qed

section \<open>A wake returns\<close>

lemma advance_index_total:
  assumes "f < length (cells m a)"
  shows "\<exists>m'. advance_index m a f B = Some m'"
  using assms
  by (simp add: advance_index_def Atomics_add_def Atomics_load_def Atomics_store_def)

lemma frame_step_total:
  assumes "INPUT_READ_INDEX C < length (cells m (statePointer wk))"
    and "OUTPUT_WRITE_INDEX C < length (cells m (statePointer wk))"
  shows "\<exists>wk' m'. frame_step C hasInput owi i (wk, m) = Some (wk', m')"
proof -
  obtain m1 where
    m1: "(if hasInput
          then advance_index m (statePointer wk) (INPUT_READ_INDEX C) (hw_B wk)
          else Some m) = Some m1"
    using advance_index_total [OF assms(1)] by (cases hasInput) auto
  then have "unchanged_but {INPUT_READ_INDEX C} (cells m (statePointer wk)) (cells m1 (statePointer wk))"
    by (auto simp: unchanged_but_refl dest: advance_index_frame split: if_splits)
  then have "OUTPUT_WRITE_INDEX C < length (cells m1 (statePointer wk))"
    using assms(2) by (simp add: unchanged_but_def)
  from advance_index_total [OF this] obtain m2 where
    "advance_index m1 (statePointer wk) (OUTPUT_WRITE_INDEX C) (hw_B wk) = Some m2" by blast
  with m1 show ?thesis
    by (simp add: frame_step_def Let_def)
qed

lemma frames_loop_total:
  "INPUT_READ_INDEX C < length (cells m (statePointer wk)) \<Longrightarrow>
   OUTPUT_WRITE_INDEX C < length (cells m (statePointer wk)) \<Longrightarrow>
   \<exists>wk' m'. frames_loop C hasInput owi i n (wk, m) = Some (wk', m')"
proof (induction n arbitrary: i wk m)
  case 0
  then show ?case by simp
next
  case (Suc n)
  from frame_step_total [OF Suc.prems] obtain wk1 m1 where
    s: "frame_step C hasInput owi i (wk, m) = Some (wk1, m1)" by blast
  from frame_step_frame [OF s] have
    "statePointer wk1 = statePointer wk"
    "length (cells m1 (statePointer wk)) = length (cells m (statePointer wk))"
    by (simp_all add: unchanged_but_def)
  with Suc.prems have
    "INPUT_READ_INDEX C < length (cells m1 (statePointer wk1))"
    "OUTPUT_WRITE_INDEX C < length (cells m1 (statePointer wk1))" by simp_all
  from Suc.IH [OF this] s show ?case by simp
qed

lemma render_total:
  assumes wf: "wf_constants C"
    and len: "length (worker_state wk m) = length (initialSharedState C)"
    and nomidi: "isRequestingRtMidiInput wk = 0 \<or> field wk m (AVAIL_RTMIDI_EVENTS C) \<le> 0"
  shows "\<exists>wk' m'. render C wk m = Some (wk', m')"
proof -
  let ?a = "statePointer wk"
  have b: "AVAIL_RTMIDI_EVENTS C < length (cells m ?a)" "AVAIL_IN_BUFS C < length (cells m ?a)"
    "AVAIL_OUT_BUFS C < length (cells m ?a)" "INPUT_READ_INDEX C < length (cells m ?a)"
    "OUTPUT_WRITE_INDEX C < length (cells m ?a)" "ATOMIC_NOTIFY C < length (cells m ?a)"
    using in_bounds [OF wf] len by (simp_all add: worker_state_def)
  have dm: "drain_midi C wk m = Some (wk, m)"
    using nomidi b by (auto simp: drain_midi_def load_in_range field_def worker_state_def)
  obtain wk2 m2 where
    fl: "frames_loop C (sw_b wk \<le> sint (cells m ?a ! AVAIL_IN_BUFS C))
           (sint (cells m ?a ! OUTPUT_WRITE_INDEX C)) 0 (nat (sw_b wk)) (wk, m) = Some (wk2, m2)"
    using frames_loop_total [OF b(4) b(5)] by blast
  from frames_loop_frame [OF fl] have
    l2: "statePointer wk2 = ?a" "length (cells m2 ?a) = length (cells m ?a)"
    by (simp_all add: unchanged_but_def)
  show ?thesis
    using b l2
    by (simp add: render_def dm handleSABCallbacks_def load_in_range fl Let_def
        Atomics_sub_def Atomics_add_def Atomics_store_def)
qed

text \<open>
  A wake on a vector as long as the template, with no MIDI event to drain, returns: it
  leaves the loop or reaches the end of the body, and never ends asleep.
\<close>

lemma wake_returns:
  assumes wf: "wf_constants C"
    and len: "length (worker_state wk (mem w)) = length (initialSharedState C)"
    and nomidi: "isRequestingRtMidiInput wk = 0 \<or> field wk (mem w) (AVAIL_RTMIDI_EVENTS C) \<le> 0"
  shows "\<exists>r wk' w'. wake C wk w = Some (r, wk', w') \<and> r \<noteq> asleep_on_pause"
proof -
  let ?wk = "wk\<lparr>firstRound := False\<rparr>"
  let ?a = "statePointer wk"
  have b: "STOP C < length (cells (mem w) ?a)" "IS_PERFORMING C < length (cells (mem w) ?a)"
    "IS_PAUSED C < length (cells (mem w) ?a)"
    using in_bounds [OF wf] len by (simp_all add: worker_state_def)
  have "length (worker_state ?wk (mem w)) = length (initialSharedState C)"
    "isRequestingRtMidiInput ?wk = 0 \<or> field ?wk (mem w) (AVAIL_RTMIDI_EVENTS C) \<le> 0"
    using len nomidi by (simp_all add: worker_state_def field_def)
  from render_total [OF wf this] obtain wk' m' where
    r: "render C ?wk (mem w) = Some (wk', m')" by blast
  have one: "cells (mem w) ?a ! IS_PAUSED C \<noteq> 0" if "sint (cells (mem w) ?a ! IS_PAUSED C) = 1"
    using that by auto
  show ?thesis
    using b r one
    by (auto simp: wake_def stop_requested_def load_in_range Atomics_wait_def
        end_performance_def Let_def)
qed

section \<open>The counters after a wake\<close>

lemma word_of_int_nonzero:
  "0 < b \<Longrightarrow> b < 2 ^ 31 \<Longrightarrow> (word_of_int b :: i32) \<noteq> 0"
proof
  assume b: "0 < b" "b < 2 ^ 31" and z: "(word_of_int b :: i32) = 0"
  have "sint (word_of_int b :: i32) = b"
    using b by (intro sint_word_of_int_32) simp_all
  with z b show False by simp
qed

text \<open>
  C5.  For every wake of the realtime render loop that reaches the publication of the
  counters and the end of the body (the constants table being well formed, no other
  agent running during the wake): \<^verbatim>\<open>AVAIL_OUT_BUFS\<close> afterwards is its value before plus
  \<^verbatim>\<open>_b\<close>, in 32-bit arithmetic; \<^verbatim>\<open>AVAIL_IN_BUFS\<close> is its value before minus \<^verbatim>\<open>_b\<close> when
  \<^verbatim>\<open>AVAIL_IN_BUFS\<close> was at least \<^verbatim>\<open>_b\<close> before the wake, and unchanged otherwise; so, for a
  positive \<^verbatim>\<open>_b\<close>, it has decreased by \<^verbatim>\<open>_b\<close> if and only if \<^verbatim>\<open>hasInput\<close> held.
\<close>

theorem wake_publishes_counters:
  assumes wf: "wf_constants C"
    and w: "wake C wk w = Some (loop_again, wk', w')"
  shows "worker_state wk' (mem w') ! AVAIL_OUT_BUFS C =
           worker_state wk (mem w) ! AVAIL_OUT_BUFS C + word_of_int (sw_b wk) \<and>
         worker_state wk' (mem w') ! AVAIL_IN_BUFS C =
           (if sw_b wk \<le> field wk (mem w) (AVAIL_IN_BUFS C)
            then worker_state wk (mem w) ! AVAIL_IN_BUFS C - word_of_int (sw_b wk)
            else worker_state wk (mem w) ! AVAIL_IN_BUFS C) \<and>
         (0 < sw_b wk \<and> sw_b wk < 2 ^ 31 \<longrightarrow>
            (worker_state wk' (mem w') ! AVAIL_IN_BUFS C =
               worker_state wk (mem w) ! AVAIL_IN_BUFS C - word_of_int (sw_b wk)
             \<longleftrightarrow> sw_b wk \<le> field wk (mem w) (AVAIL_IN_BUFS C)))"
proof -
  let ?wk = "wk\<lparr>firstRound := False\<rparr>"
  from w obtain m' where
    r: "render C ?wk (mem w) = Some (wk', m')" and w': "w' = w\<lparr>mem := m'\<rparr>"
    by (auto simp: wake_def Let_def end_performance_def
        split: Option.bind_splits if_splits prod.splits)
  from render_counters [OF wf r] have
    c: "statePointer wk' = statePointer wk"
      "cells m' (statePointer wk) ! AVAIL_OUT_BUFS C =
         cells (mem w) (statePointer wk) ! AVAIL_OUT_BUFS C + word_of_int (sw_b wk)"
      "cells m' (statePointer wk) ! AVAIL_IN_BUFS C =
         (if sw_b wk \<le> sint (cells (mem w) (statePointer wk) ! AVAIL_IN_BUFS C)
          then cells (mem w) (statePointer wk) ! AVAIL_IN_BUFS C - word_of_int (sw_b wk)
          else cells (mem w) (statePointer wk) ! AVAIL_IN_BUFS C)"
    by simp_all
  show ?thesis
    using c word_of_int_nonzero [of "sw_b wk"]
    by (simp add: w' worker_state_def field_def)
qed

theorem wake_publishes_counters_witness:
  "wf_constants sample_constants \<and>
   (\<exists>wk w wk' w'. happy_path = Some (wk, w) \<and>
      wake sample_constants wk w = Some (loop_again, wk', w') \<and>
      sw_b wk = 8 \<and>
      field wk (mem w) (AVAIL_IN_BUFS sample_constants) = 8 \<and>
      worker_state wk (mem w) ! AVAIL_OUT_BUFS sample_constants = 0 \<and>
      worker_state wk' (mem w') ! AVAIL_OUT_BUFS sample_constants = 8 \<and>
      worker_state wk' (mem w') ! AVAIL_IN_BUFS sample_constants =
        worker_state wk (mem w) ! AVAIL_IN_BUFS sample_constants - 8)"
proof -
  have "(case happy_path of None \<Rightarrow> False
         | Some (wk, w) \<Rightarrow>
             sw_b wk = 8 \<and> field wk (mem w) (AVAIL_IN_BUFS sample_constants) = 8 \<and>
             worker_state wk (mem w) ! AVAIL_OUT_BUFS sample_constants = 0 \<and>
             map_option fst (wake sample_constants wk w) = Some loop_again)"
    by code_simp
  then obtain wk w wk' w' where
    h: "happy_path = Some (wk, w)"
    and b: "sw_b wk = 8" "field wk (mem w) (AVAIL_IN_BUFS sample_constants) = 8"
      "worker_state wk (mem w) ! AVAIL_OUT_BUFS sample_constants = 0"
    and k: "wake sample_constants wk w = Some (loop_again, wk', w')"
    by (auto split: option.splits)
  from wake_publishes_counters [OF wf_sample k] b h k wf_sample show ?thesis
    by auto
qed

section \<open>The pause test of the render loop\<close>

text \<open>
  C3 fails on the code.  The worker waits with \<^verbatim>\<open>Atomics.wait(view, IS_PAUSED, 0)\<close>, which
  sleeps only while the field is 0: with \<^verbatim>\<open>IS_PAUSED = 1\<close> it returns at once.  In
  scenario 2 the wake that starts with \<^verbatim>\<open>IS_PAUSED = 1\<close> and \<^verbatim>\<open>AVAIL_OUT_BUFS = 0\<close> runs to
  the end of the body: \<^verbatim>\<open>IS_PAUSED\<close> is still 1, \<^verbatim>\<open>AVAIL_OUT_BUFS\<close> is 8 (the software
  buffer) and the engine has performed two blocks of 4 frames.
\<close>

theorem paused_wake_renders:
  "do {
     (wk, w) \<leftarrow> paused_with_input;
     (r, wk', w') \<leftarrow> wake sample_constants wk w;
     Some (field wk (mem w) (IS_PAUSED sample_constants),
           field wk (mem w) (AVAIL_OUT_BUFS sample_constants),
           r,
           field wk' (mem w') (IS_PAUSED sample_constants),
           field wk' (mem w') (AVAIL_OUT_BUFS sample_constants),
           performed (csound wk'))
   } = Some (1, 0, loop_again, 1, 8, 2)"
  by code_simp

text \<open>No wake of the model ends asleep in the wait on \<^verbatim>\<open>IS_PAUSED\<close>.\<close>

lemma pause_wait_never_sleeps: "wake C wk w \<noteq> Some (asleep_on_pause, wk', w')"
proof
  assume a: "wake C wk w = Some (asleep_on_pause, wk', w')"
  then obtain p where
    p: "Atomics_load (mem w) (statePointer wk) (IS_PAUSED C) = Some p"
    and s: "(if p = 1
             then map_option (\<lambda>r. r = asleep)
                    (Atomics_wait (mem w) (statePointer wk) (IS_PAUSED C) 0)
             else Some False) = Some True"
    by (auto simp: wake_def Let_def end_performance_def
        split: Option.bind_splits if_splits prod.splits)
  from s have p1: "p = 1"
    and z: "cells (mem w) (statePointer wk) ! IS_PAUSED C = 0"
    by (auto simp: Atomics_wait_def split: if_splits)
  from load_Some [OF p] z p1 show False by simp
qed

section \<open>MIDI delivery\<close>

text \<open>
  C4 fails on the code in its last part.  After the three calls of scenario 4
  \<^verbatim>\<open>AVAIL_RTMIDI_EVENTS\<close> is 3; the next wake pushes the three messages to the engine in
  their order and leaves \<^verbatim>\<open>AVAIL_RTMIDI_EVENTS = 0\<close>, and it stores
  \<^verbatim>\<open>(absIdx + 1) % MIDI_BUFFER_SIZE\<close> with \<open>absIdx = 6\<close>, the first word of the last event:
  \<^verbatim>\<open>RTMIDI_INDEX\<close> is 7, not \<^verbatim>\<open>9 mod MIDI_BUFFER_SIZE\<close> (which is 9).
\<close>

theorem midi_cursor_after_three_events:
  "do {
     (wk, w) \<leftarrow> three_midi_events;
     (r, wk', w') \<leftarrow> wake sample_constants wk w;
     Some (field wk (mem w) (AVAIL_RTMIDI_EVENTS sample_constants),
           pushed_midi (csound wk'),
           field wk' (mem w') (AVAIL_RTMIDI_EVENTS sample_constants),
           field wk' (mem w') (RTMIDI_INDEX sample_constants),
           js_rem 9 (MIDI_BUFFER_SIZE sample_constants))
   } = Some (3, [(0x90, 60, 100), (0x80, 60, 0), (0xB0, 7, 64)], 0, 7, Some 9)"
  by code_simp

section \<open>MIDI input without a capacity check\<close>

lemma js_rem_nonneg: "0 \<le> a \<Longrightarrow> 0 < b \<Longrightarrow> js_rem a b = Some (a mod b)"
  by (cases "a = 0") (simp_all add: js_rem_def)

lemma store_at_in_range:
  "0 \<le> x \<Longrightarrow> nat x < length (cells m a) \<Longrightarrow>
   store_at m a (Some x) v =
     Some (m\<lparr>cells := (cells m)(a := (cells m a)[nat x := word_of_int v])\<rparr>)"
  by (simp add: store_at_def ToIndex_def store_in_range)

lemma handleMidiInput_effect:
  assumes wf: "wf_constants C"
    and len: "length (host_state w) = length (initialSharedState C)"
    and ring: "length (cells (mem w) (midiBuffer (main w))) =
                 nat (MIDI_BUFFER_SIZE C * MIDI_BUFFER_PAYLOAD_SIZE C)"
    and sep: "midiBuffer (main w) \<noteq> audioStatePointer (main w)"
    and size: "0 < MIDI_BUFFER_SIZE C" and pay: "MIDI_BUFFER_PAYLOAD_SIZE C = 3"
    and n: "0 \<le> peek w (AVAIL_RTMIDI_EVENTS C)" and r: "0 \<le> peek w (RTMIDI_INDEX C)"
  shows "\<exists>w' i. handleMidiInput C (status, data1, data2) w = Some w' \<and>
     int i = (peek w (AVAIL_RTMIDI_EVENTS C) * MIDI_BUFFER_PAYLOAD_SIZE C
                + peek w (RTMIDI_INDEX C)) mod MIDI_BUFFER_SIZE C \<and>
     cells (mem w') (midiBuffer (main w)) =
       (cells (mem w) (midiBuffer (main w)))
         [i := word_of_int status, Suc i := word_of_int data1,
          Suc (Suc i) := word_of_int data2] \<and>
     host_state w' =
       (host_state w)[AVAIL_RTMIDI_EVENTS C := host_state w ! AVAIL_RTMIDI_EVENTS C + 1] \<and>
     main w' = main w \<and> trace w' = trace w \<and>
     (MIDI_BUFFER_SIZE C dvd peek w (AVAIL_RTMIDI_EVENTS C) * MIDI_BUFFER_PAYLOAD_SIZE C \<and>
      peek w (RTMIDI_INDEX C) < MIDI_BUFFER_SIZE C
        \<longrightarrow> int i = peek w (RTMIDI_INDEX C))"
proof -
  let ?a = "audioStatePointer (main w)" and ?b = "midiBuffer (main w)"
  let ?n = "peek w (AVAIL_RTMIDI_EVENTS C)" and ?r = "peek w (RTMIDI_INDEX C)"
  let ?S = "MIDI_BUFFER_SIZE C"
  let ?x = "(?n * 3 + ?r) mod ?S"
  have b: "AVAIL_RTMIDI_EVENTS C < length (cells (mem w) ?a)"
    "RTMIDI_INDEX C < length (cells (mem w) ?a)"
    using in_bounds [OF wf] len by (simp_all add: host_state_def)
  have x: "0 \<le> ?x" "?x < ?S" using size by simp_all
  have nx: "js_rem (?n * 3 + ?r) ?S = Some ?x"
    using n r size by (intro js_rem_nonneg) simp_all
  have lr: "length (cells (mem w) ?b) = nat (?S * 3)" using ring pay by simp
  have i: "nat ?x < length (cells (mem w) ?b)" "nat (?x + 1) < length (cells (mem w) ?b)"
    "nat (?x + 2) < length (cells (mem w) ?b)"
    using x size unfolding lr by linarith+
  have s: "nat (?x + 1) = Suc (nat ?x)" "nat (?x + 2) = Suc (Suc (nat ?x))"
    using x by simp_all
  define L1 where "L1 = (cells (mem w) ?b)[nat ?x := word_of_int status]"
  define L2 where "L2 = L1[Suc (nat ?x) := word_of_int data1]"
  define L3 where "L3 = L2[Suc (Suc (nat ?x)) := word_of_int data2]"
  define m1 where "m1 = (mem w)\<lparr>cells := (cells (mem w))(?b := L1)\<rparr>"
  define m2 where "m2 = m1\<lparr>cells := (cells m1)(?b := L2)\<rparr>"
  define m3 where "m3 = m2\<lparr>cells := (cells m2)(?b := L3)\<rparr>"
  define m4 where "m4 = m3\<lparr>cells := (cells m3)
    (?a := (cells m3 ?a)[AVAIL_RTMIDI_EVENTS C := cells m3 ?a ! AVAIL_RTMIDI_EVENTS C + word_of_int 1])\<rparr>"
  have c1: "cells m1 ?b = L1" "cells m2 ?b = L2" "cells m3 ?b = L3"
    by (simp_all add: m1_def m2_def m3_def)
  have ln: "length L1 = length (cells (mem w) ?b)" "length L2 = length (cells (mem w) ?b)"
    by (simp_all add: L1_def L2_def)
  have s1: "store_at (mem w) ?b (Some ?x) status = Some m1"
    using x(1) i(1) by (simp add: store_at_in_range m1_def L1_def)
  have s2: "store_at m1 ?b (Some (?x + 1)) data1 = Some m2"
    using x(1) i(2) by (simp add: store_at_in_range c1 ln s m2_def L2_def)
  have s3: "store_at m2 ?b (Some (?x + 2)) data2 = Some m3"
    using x(1) i(3) by (simp add: store_at_in_range c1 ln s m3_def L3_def)
  have ca: "cells m3 ?a = cells (mem w) ?a"
    using sep by (simp add: m1_def m2_def m3_def)
  have s4: "Atomics_add m3 ?a (AVAIL_RTMIDI_EVENTS C) 1 = Some m4"
    using b by (simp add: Atomics_add_def ca m4_def)
  have ld: "Atomics_load (mem w) ?a (AVAIL_RTMIDI_EVENTS C) = Some ?n"
    "Atomics_load (mem w) ?a (RTMIDI_INDEX C) = Some ?r"
    using b by (simp_all add: load_in_range peek_def host_state_def)
  have h: "handleMidiInput C (status, data1, data2) w = Some (w\<lparr>mem := m4\<rparr>)"
    unfolding handleMidiInput_def
    by (simp add: ld pay nx js_plus_def s1 s2 s3 s4)
  have r4: "cells m4 ?b = L3"
    "cells m4 ?a = (cells (mem w) ?a)
       [AVAIL_RTMIDI_EVENTS C := cells (mem w) ?a ! AVAIL_RTMIDI_EVENTS C + 1]"
    using sep by (simp_all add: m4_def ca c1)
  have land: "int (nat ?x) = ?r" if "?S dvd ?n * 3" "?r < ?S"
  proof -
    from that(1) have "(?n * 3 + ?r) mod ?S = ?r mod ?S" by (simp add: mod_add_left_eq [symmetric] dvd_eq_mod_eq_0)
    with that(2) r x show ?thesis by simp
  qed
  show ?thesis
    using x sep land r
    by (intro exI [of _ "w\<lparr>mem := m4\<rparr>"] exI [of _ "nat ?x"])
      (simp add: h r4 pay host_state_def L3_def L2_def L1_def)
qed

text \<open>
  C9, as amended.  Let the constants table be well formed with a positive ring size and
  three-word events, the state vector as long as the template, the MIDI view as the
  constructor allocates it, and the queue's count and cursor not negative.  Then
  \<^verbatim>\<open>handleMidiInput\<close> always succeeds: it writes its three words at \<open>i\<close>, \<open>i + 1\<close>,
  \<open>i + 2\<close>, where \<open>i = (AVAIL_RTMIDI_EVENTS * MIDI_BUFFER_PAYLOAD_SIZE + RTMIDI_INDEX) mod
  MIDI_BUFFER_SIZE\<close>, and adds 1 to \<^verbatim>\<open>AVAIL_RTMIDI_EVENTS\<close>, however many events are
  pending.  When the words pending, \<open>AVAIL_RTMIDI_EVENTS * MIDI_BUFFER_PAYLOAD_SIZE\<close>, are
  a multiple of \<^verbatim>\<open>MIDI_BUFFER_SIZE\<close> (for a ring holding
  \<open>MIDI_BUFFER_SIZE div MIDI_BUFFER_PAYLOAD_SIZE\<close> events: when the payload size divides
  the ring size), \<open>i\<close> is the cursor \<^verbatim>\<open>RTMIDI_INDEX\<close>: the write lands on the oldest
  unconsumed event.
\<close>

theorem midi_input_unchecked:
  assumes "wf_constants C"
    and "length (host_state w) = length (initialSharedState C)"
    and "length (cells (mem w) (midiBuffer (main w))) =
           nat (MIDI_BUFFER_SIZE C * MIDI_BUFFER_PAYLOAD_SIZE C)"
    and "midiBuffer (main w) \<noteq> audioStatePointer (main w)"
    and "0 < MIDI_BUFFER_SIZE C" and "MIDI_BUFFER_PAYLOAD_SIZE C = 3"
    and "0 \<le> peek w (AVAIL_RTMIDI_EVENTS C)" and "0 \<le> peek w (RTMIDI_INDEX C)"
  shows "\<exists>w' i. handleMidiInput C (status, data1, data2) w = Some w' \<and>
     int i = (peek w (AVAIL_RTMIDI_EVENTS C) * MIDI_BUFFER_PAYLOAD_SIZE C
                + peek w (RTMIDI_INDEX C)) mod MIDI_BUFFER_SIZE C \<and>
     cells (mem w') (midiBuffer (main w)) =
       (cells (mem w) (midiBuffer (main w)))
         [i := word_of_int status, Suc i := word_of_int data1,
          Suc (Suc i) := word_of_int data2] \<and>
     host_state w' =
       (host_state w)[AVAIL_RTMIDI_EVENTS C := host_state w ! AVAIL_RTMIDI_EVENTS C + 1] \<and>
     main w' = main w \<and> trace w' = trace w \<and>
     (MIDI_BUFFER_SIZE C dvd peek w (AVAIL_RTMIDI_EVENTS C) * MIDI_BUFFER_PAYLOAD_SIZE C \<and>
      peek w (RTMIDI_INDEX C) < MIDI_BUFFER_SIZE C
        \<longrightarrow> int i = peek w (RTMIDI_INDEX C))"
  using assms by (rule handleMidiInput_effect)

lemma wf_small_ring: "wf_constants small_ring_constants"
  by (simp add: wf_constants_def field_indices_def small_ring_constants_def sample_constants_def)

theorem midi_input_unchecked_witness:
  "wf_constants small_ring_constants \<and>
   length (host_state full_small_ring_host) = length (initialSharedState small_ring_constants) \<and>
   length (cells (mem full_small_ring_host) (midiBuffer (main full_small_ring_host))) =
     nat (MIDI_BUFFER_SIZE small_ring_constants * MIDI_BUFFER_PAYLOAD_SIZE small_ring_constants) \<and>
   midiBuffer (main full_small_ring_host) \<noteq> audioStatePointer (main full_small_ring_host) \<and>
   MIDI_BUFFER_PAYLOAD_SIZE small_ring_constants = 3 \<and>
   peek full_small_ring_host (AVAIL_RTMIDI_EVENTS small_ring_constants) =
     MIDI_BUFFER_SIZE small_ring_constants div MIDI_BUFFER_PAYLOAD_SIZE small_ring_constants \<and>
   peek full_small_ring_host (RTMIDI_INDEX small_ring_constants) = 0 \<and>
   take 3 (cells (mem full_small_ring_host) 1) = [0x90, 60, 100] \<and>
   (\<exists>w'. handleMidiInput small_ring_constants (0xB0, 7, 64) full_small_ring_host = Some w' \<and>
      take 3 (cells (mem w') 1) = [0xB0, 7, 64] \<and>
      peek w' (AVAIL_RTMIDI_EVENTS small_ring_constants) = 5)"
proof -
  let ?C = small_ring_constants and ?w = full_small_ring_host
  have c: "MIDI_BUFFER_SIZE ?C = 12" "MIDI_BUFFER_PAYLOAD_SIZE ?C = 3"
    "AVAIL_RTMIDI_EVENTS ?C = 14" "RTMIDI_INDEX ?C = 15"
    "length (initialSharedState ?C) = 16"
    by (simp_all add: small_ring_constants_def sample_constants_def)
  have hs: "host_state ?w = [1, 0, 0, 0, 2, 0, 44100, 4096, 8, 0, 0, 0, 0, 1, 4, 0]"
    and mb: "midiBuffer (main ?w) = Suc 0" "audioStatePointer (main ?w) = 0"
    and rg: "cells (mem ?w) (Suc 0) =
      [0x90, 60, 100, 0x80, 60, 0, 0x90, 62, 100, 0x80, 62, 0] @ replicate 24 0"
    by (simp_all add: full_small_ring_host_def host_state_def)
  have pk: "peek ?w (AVAIL_RTMIDI_EVENTS ?C) = 4" "peek ?w (RTMIDI_INDEX ?C) = 0"
    by (simp_all add: peek_def hs c)
  have len: "length (host_state ?w) = length (initialSharedState ?C)"
    by (simp add: hs c)
  have ring: "length (cells (mem ?w) (midiBuffer (main ?w))) =
      nat (MIDI_BUFFER_SIZE ?C * MIDI_BUFFER_PAYLOAD_SIZE ?C)"
    by (simp add: mb rg c)
  have sep: "midiBuffer (main ?w) \<noteq> audioStatePointer (main ?w)"
    by (simp add: mb)
  have size: "0 < MIDI_BUFFER_SIZE ?C" by (simp add: c)
  have n: "0 \<le> peek ?w (AVAIL_RTMIDI_EVENTS ?C)" and r: "0 \<le> peek ?w (RTMIDI_INDEX ?C)"
    by (simp_all add: pk)
  from midi_input_unchecked [OF wf_small_ring len ring sep size c(2) n r, of "0xB0" 7 64]
  obtain w' i where
    h: "handleMidiInput ?C (0xB0, 7, 64) ?w = Some w'"
    and i: "int i = (peek ?w (AVAIL_RTMIDI_EVENTS ?C) * MIDI_BUFFER_PAYLOAD_SIZE ?C
                + peek ?w (RTMIDI_INDEX ?C)) mod MIDI_BUFFER_SIZE ?C"
    and m: "cells (mem w') (midiBuffer (main ?w)) =
       (cells (mem ?w) (midiBuffer (main ?w)))
         [i := word_of_int 0xB0, Suc i := word_of_int 7, Suc (Suc i) := word_of_int 64]"
    and a: "host_state w' =
       (host_state ?w)[AVAIL_RTMIDI_EVENTS ?C := host_state ?w ! AVAIL_RTMIDI_EVENTS ?C + 1]"
    by blast
  have pk': "peek ?w 14 = 4" "peek ?w 15 = 0"
    using pk by (simp_all add: c)
  from i have i0: "i = 0" by (simp add: c pk')
  have t: "take 3 (cells (mem w') 1) = [0xB0, 7, 64]"
    using m by (simp add: mb rg i0)
  have p: "peek w' (AVAIL_RTMIDI_EVENTS ?C) = 5"
    by (simp add: peek_def a hs c)
  have q: "peek ?w (AVAIL_RTMIDI_EVENTS ?C) =
      MIDI_BUFFER_SIZE ?C div MIDI_BUFFER_PAYLOAD_SIZE ?C"
    by (simp add: c pk')
  have o: "take 3 (cells (mem ?w) 1) = [0x90, 60, 100]"
    using rg by simp
  show ?thesis
    using wf_small_ring len ring sep c(2) q pk(2) o h t p by blast
qed

text \<open>
  C9 as stated fails where the payload size does not divide the ring size.  With a ring
  of 1024 words holding \<open>1024 div 3 = 341\<close> events from index 0, the next message is
  written at the words 1023, 1024 and 1025 of the view (which is 3072 words long); the
  oldest event, at the words 0, 1 and 2, is as it was, and the count is 342.
\<close>

theorem full_ring_keeps_oldest_counterexample:
  "peek full_ring_host (AVAIL_RTMIDI_EVENTS sample_constants) =
     MIDI_BUFFER_SIZE sample_constants div MIDI_BUFFER_PAYLOAD_SIZE sample_constants \<and>
   peek full_ring_host (RTMIDI_INDEX sample_constants) = 0 \<and>
   take 3 (cells (mem full_ring_host) 1) = [0x90, 60, 100] \<and>
   map_option
     (\<lambda>w'. (take 3 (cells (mem w') 1),
            cells (mem w') 1 ! 1023, cells (mem w') 1 ! 1024, cells (mem w') 1 ! 1025,
            peek w' (AVAIL_RTMIDI_EVENTS sample_constants)))
     (handleMidiInput sample_constants (0xB0, 7, 64) full_ring_host) =
   Some ([0x90, 60, 100], 0xB0, 7, 64, 342)"
proof -
  let ?C = sample_constants and ?w = full_ring_host
  have c: "MIDI_BUFFER_SIZE ?C = 1024" "MIDI_BUFFER_PAYLOAD_SIZE ?C = 3"
    "AVAIL_RTMIDI_EVENTS ?C = 14" "RTMIDI_INDEX ?C = 15"
    "length (initialSharedState ?C) = 16"
    by (simp_all add: sample_constants_def)
  have hs: "host_state ?w = [1, 0, 0, 0, 2, 0, 44100, 4096, 8, 0, 0, 0, 0, 1, 341, 0]"
    and mb: "midiBuffer (main ?w) = Suc 0" "audioStatePointer (main ?w) = 0"
    and rg: "cells (mem ?w) (Suc 0) = [0x90, 60, 100] @ replicate 3069 0"
    by (simp_all add: full_ring_host_def host_state_def)
  have pk: "peek ?w 14 = 341" "peek ?w 15 = 0"
    by (simp_all add: peek_def hs)
  have len: "length (host_state ?w) = length (initialSharedState ?C)"
    by (simp add: hs c)
  have ring: "length (cells (mem ?w) (midiBuffer (main ?w))) =
      nat (MIDI_BUFFER_SIZE ?C * MIDI_BUFFER_PAYLOAD_SIZE ?C)"
    by (simp add: mb rg c)
  have sep: "midiBuffer (main ?w) \<noteq> audioStatePointer (main ?w)"
    by (simp add: mb)
  have size: "0 < MIDI_BUFFER_SIZE ?C" by (simp add: c)
  have n: "0 \<le> peek ?w (AVAIL_RTMIDI_EVENTS ?C)" and r: "0 \<le> peek ?w (RTMIDI_INDEX ?C)"
    by (simp_all add: c pk)
  from handleMidiInput_effect [OF wf_sample len ring sep size c(2) n r, of "0xB0" 7 64]
  obtain w' i where
    h: "handleMidiInput ?C (0xB0, 7, 64) ?w = Some w'"
    and i: "int i = (peek ?w (AVAIL_RTMIDI_EVENTS ?C) * MIDI_BUFFER_PAYLOAD_SIZE ?C
                + peek ?w (RTMIDI_INDEX ?C)) mod MIDI_BUFFER_SIZE ?C"
    and m: "cells (mem w') (midiBuffer (main ?w)) =
       (cells (mem ?w) (midiBuffer (main ?w)))
         [i := word_of_int 0xB0, Suc i := word_of_int 7, Suc (Suc i) := word_of_int 64]"
    and a: "host_state w' =
       (host_state ?w)[AVAIL_RTMIDI_EVENTS ?C := host_state ?w ! AVAIL_RTMIDI_EVENTS ?C + 1]"
    by blast
  from i have i0: "i = 1023" by (simp add: c pk)
  have m': "cells (mem w') (Suc 0) =
      ([0x90, 60, 100] @ replicate 3069 0)[1023 := 0xB0, 1024 := 7, 1025 := 64]"
    using m by (simp add: mb rg i0)
  have t: "take 3 (cells (mem w') (Suc 0)) = [0x90, 60, 100]"
    "cells (mem w') (Suc 0) ! 1023 = 0xB0" "cells (mem w') (Suc 0) ! 1024 = 7"
    "cells (mem w') (Suc 0) ! 1025 = 64"
    by (simp_all add: m')
  have p: "peek w' 14 = 342"
    by (simp add: peek_def a hs c)
  have o: "take 3 (cells (mem ?w) (Suc 0)) = [0x90, 60, 100]"
    by (simp add: rg)
  show ?thesis
    using o by (simp add: c pk h t p)
qed

section \<open>Reset followed by start\<close>

text \<open>
  C8 fails on the code.  \<^verbatim>\<open>csoundReset\<close> replaces \<^verbatim>\<open>this.audioStatePointer\<close> by a fresh
  vector, but \<^verbatim>\<open>csoundStart\<close> posts the buffer that \<^verbatim>\<open>initialize\<close> captured, so after a
  reset the worker performs on the old vector while \<^verbatim>\<open>handleMidiInput\<close> and
  \<^verbatim>\<open>prepareRealtimePerformance\<close> use the new one.  Started right after \<^verbatim>\<open>initialize\<close>, the
  performance delivers the note-on to the engine and stamps the engine's parameters on
  the audio backend; started after \<^verbatim>\<open>reset()\<close>, with the same engine and the same input,
  it delivers nothing and stamps zeros.
\<close>

theorem reset_then_start_differs:
  "midi_performance fresh_host =
     Some ([(0x90, 60, 100)],
           Some \<lparr>isRequestingInput = False, isRequestingMidi = 1, sampleRate = 44100,
                 inputCount = 0, outputsCount = 2, hardwareBufferSize = 4096,
                 softwareBufferSize = 8\<rparr>) \<and>
   do { (r, w) \<leftarrow> csoundReset sample_constants 0 fresh_host; midi_performance w } =
     Some ([],
           Some \<lparr>isRequestingInput = False, isRequestingMidi = 0, sampleRate = 0,
                 inputCount = 0, outputsCount = 0, hardwareBufferSize = 0,
                 softwareBufferSize = 0\<rparr>)"
  by code_simp

end
